theory Spec2Isabelle
  imports Complex_Main
begin

section \<open>Python values\<close>

text \<open>
  A Python float: a finite value (every finite double is a rational number), the two
  infinities, or NaN. The sign of zero is not modelled.
\<close>

datatype pyfloat = Fin rat | PosInf | NegInf | NaN

text \<open>
  The values \<open>json.load\<close> produces, which are also the values \<open>json.dump\<close> accepts:
  \<open>None\<close>, booleans, unbounded integers, floats, strings, lists, and dictionaries with
  string keys. A dictionary is an association list in insertion order; lookup takes the
  first binding of a key. Tuples do not occur in parsed JSON and are not modelled.
\<close>

datatype json =
    JNull
  | JBool bool
  | JInt int
  | JFloat pyfloat
  | JStr string
  | JList "json list"
  | JDict "(string \<times> json) list"

type_synonym dict = "(string \<times> json) list"

section \<open>Exceptions and log records\<close>

datatype exn_class =
    FileNotFoundError
  | JSONDecodeError
  | ValueError
  | TypeError
  | OverflowError
  | AttributeError
  | KeyError
  | IndexError
  | OSError

text \<open>
  The text of an exception, kept structured: one constructor per message template of the
  source, the f-string's arguments as the constructor's arguments. \<open>Builtin\<close> is a
  message written by the interpreter or the operating system.
\<close>

datatype msg =
    Builtin string
  | LocationFileNotFound string
    \<comment> \<open>"Location file not found: {filepath}"\<close>
  | InvalidJsonFormat msg
    \<comment> \<open>"Invalid JSON format in file: {e.msg}"\<close>
  | RootNotDict
    \<comment> \<open>"JSON root must be a dictionary"\<close>
  | NoLocationsKey
    \<comment> \<open>"JSON must contain 'locations' key"\<close>
  | LocationsNotDict
    \<comment> \<open>"'locations' must be a dictionary"\<close>
  | MustBeList string
    \<comment> \<open>"'{key}' must be a list"\<close>
  | MustBePair nat string
    \<comment> \<open>"Location {i} in '{key}' must be [latitude, longitude]"\<close>
  | InvalidLatitude pyfloat string nat
    \<comment> \<open>"Invalid latitude {lat} in '{key}' location {i} (must be -90 to 90)"\<close>
  | InvalidLongitude pyfloat string nat
    \<comment> \<open>"Invalid longitude {lon} in '{key}' location {i} (must be -180 to 180)"\<close>
  | InvalidCoordinateValues string nat msg
    \<comment> \<open>"Invalid coordinate values in '{key}' location {i}: {e}"\<close>
  | NeedLogisticsCenter
    \<comment> \<open>"At least one logistics center is required"\<close>
  | CouldNotConvert string
    \<comment> \<open>float(): "could not convert string to float: ..."\<close>
  | FloatArgument string
    \<comment> \<open>float(): "float() argument must be a string or a real number, not '...'"\<close>
  | IntTooLarge
    \<comment> \<open>float(): "int too large to convert to float"\<close>
  | NoAttribute string string
    \<comment> \<open>"'...' object has no attribute '...'"\<close>
  | NoLen string
    \<comment> \<open>len(): "object of type '...' has no len()"\<close>

type_synonym py_exn = "exn_class \<times> msg"

datatype level = INFO | WARNING | ERROR

datatype log_msg =
    LoadingFile string
    \<comment> \<open>"Loading locations from JSON file: {filepath}"\<close>
  | FileNotFoundLog string
    \<comment> \<open>"File not found: {filepath}"\<close>
  | InvalidJsonLog string msg
    \<comment> \<open>"Invalid JSON in file {filepath}: {e}"\<close>
  | UnexpectedReadLog string msg
    \<comment> \<open>"Unexpected error reading file {filepath}: {e}"\<close>
  | MissingKey string
    \<comment> \<open>"Missing '{key}' in locations, using empty list"\<close>
  | LoadedSummary nat nat nat
    \<comment> \<open>"Loaded {n} logistics centers, {n} sales outlets, {n} customers"\<close>
  | NoLocationsToSave
    \<comment> \<open>"No locations to save."\<close>
  | SavedTo string
    \<comment> \<open>"Locations saved to: {filepath}"\<close>
  | ErrorSaving msg
    \<comment> \<open>"Error saving locations to JSON: {e}"\<close>

type_synonym log = "(level \<times> log_msg) list"

section \<open>Built-in operations\<close>

fun type_name :: "json \<Rightarrow> string" where
  "type_name JNull = ''NoneType''"
| "type_name (JBool _) = ''bool''"
| "type_name (JInt _) = ''int''"
| "type_name (JFloat _) = ''float''"
| "type_name (JStr _) = ''str''"
| "type_name (JList _) = ''list''"
| "type_name (JDict _) = ''dict''"

text \<open>\<open>isinstance(v, dict)\<close>, \<open>isinstance(v, list)\<close>, \<open>isinstance(v, (list, tuple))\<close>.\<close>

fun is_dict :: "json \<Rightarrow> bool" where
  "is_dict (JDict _) = True"
| "is_dict _ = False"

fun is_list :: "json \<Rightarrow> bool" where
  "is_list (JList _) = True"
| "is_list _ = False"

definition is_list_or_tuple :: "json \<Rightarrow> bool" where
  "is_list_or_tuple v = is_list v"

text \<open>\<open>len(v)\<close>: defined on strings, lists and dictionaries, a TypeError elsewhere.\<close>

fun py_len :: "json \<Rightarrow> py_exn + nat" where
  "py_len (JStr s) = Inr (length s)"
| "py_len (JList xs) = Inr (length xs)"
| "py_len (JDict kvs) = Inr (length kvs)"
| "py_len v = Inl (TypeError, NoLen (type_name v))"

text \<open>\<open>xs[i]\<close> for a non-negative index on a list.\<close>

fun py_index :: "json \<Rightarrow> nat \<Rightarrow> py_exn + json" where
  "py_index (JList xs) i =
     (if i < length xs then Inr (xs ! i) else Inl (IndexError, Builtin ''list index out of range''))"
| "py_index v i = Inl (TypeError, Builtin ''object is not subscriptable'')"

text \<open>\<open>key in d\<close>, \<open>d[key]\<close>, \<open>d.get(key, default)\<close> and \<open>d[key] = v\<close> on a dictionary.\<close>

definition dict_contains :: "dict \<Rightarrow> string \<Rightarrow> bool" where
  "dict_contains d key = (map_of d key \<noteq> None)"

definition dict_getitem :: "dict \<Rightarrow> string \<Rightarrow> py_exn + json" where
  "dict_getitem d key = (case map_of d key of None \<Rightarrow> Inl (KeyError, Builtin key) | Some v \<Rightarrow> Inr v)"

fun py_get :: "json \<Rightarrow> string \<Rightarrow> json \<Rightarrow> py_exn + json" where
  "py_get (JDict d) key dflt = (case map_of d key of None \<Rightarrow> Inr dflt | Some v \<Rightarrow> Inr v)"
| "py_get v key dflt = Inl (AttributeError, NoAttribute (type_name v) ''get'')"

fun dict_setitem :: "dict \<Rightarrow> string \<Rightarrow> json \<Rightarrow> dict" where
  "dict_setitem [] key v = [(key, v)]"
| "dict_setitem ((k, w) # d) key v = (if k = key then (k, v) # d else (k, w) # dict_setitem d key v)"

text \<open>Truth value of a Python object, as \<open>not x\<close> tests it.\<close>

fun truthy :: "json \<Rightarrow> bool" where
  "truthy JNull = False"
| "truthy (JBool b) = b"
| "truthy (JInt n) = (n \<noteq> 0)"
| "truthy (JFloat f) = (f \<noteq> Fin 0)"
| "truthy (JStr s) = (s \<noteq> [])"
| "truthy (JList xs) = (xs \<noteq> [])"
| "truthy (JDict d) = (d \<noteq> [])"

subsection \<open>Conversion to float\<close>

text \<open>Number of binary digits of a positive integer.\<close>

function bitlen :: "int \<Rightarrow> nat" where
  "bitlen n = (if n \<le> 0 then 0 else Suc (bitlen (n div 2)))"
  by pat_completeness auto
termination
  by (relation "measure nat") auto

declare bitlen.simps [simp del]

text \<open>
  Rounding of an integer to the nearest integer with at most 53 significant bits, ties to
  the even significand: the value of the double nearest to \<open>n\<close>, when it is in range.
\<close>

definition round53 :: "int \<Rightarrow> int" where
  "round53 n =
     (let m = \<bar>n\<bar>; b = bitlen m in
      if b \<le> 53 then n
      else
        let e = b - 53;
            q = m div 2 ^ e;
            r = m mod 2 ^ e;
            h = 2 ^ (e - 1);
            q' = (if h < r \<or> (r = h \<and> odd q) then q + 1 else q)
        in sgn n * (q' * 2 ^ e))"

text \<open>
  \<open>float(n)\<close> for an integer: an OverflowError when the rounded value does not fit a
  double (its magnitude reaches \<open>2 ^ 1024\<close>).
\<close>

definition int_to_float :: "int \<Rightarrow> py_exn + pyfloat" where
  "int_to_float n =
     (let v = round53 n in
      if 2 ^ 1024 \<le> \<bar>v\<bar> then Inl (OverflowError, IntTooLarge) else Inr (Fin (of_int v)))"

text \<open>
  \<open>float(v)\<close>. The parser of float literals in strings is the parameter \<open>sf\<close>:
  \<open>sf s = None\<close> when \<open>float(s)\<close> raises ValueError.
\<close>

fun py_float :: "(string \<Rightarrow> pyfloat option) \<Rightarrow> json \<Rightarrow> py_exn + pyfloat" where
  "py_float sf (JFloat f) = Inr f"
| "py_float sf (JInt n) = int_to_float n"
| "py_float sf (JBool b) = Inr (Fin (if b then 1 else 0))"
| "py_float sf (JStr s) =
     (case sf s of None \<Rightarrow> Inl (ValueError, CouldNotConvert s) | Some f \<Rightarrow> Inr f)"
| "py_float sf v = Inl (TypeError, FloatArgument (type_name v))"

text \<open>Comparison of an integer literal with a float: false whenever the float is NaN.\<close>

fun int_le_float :: "int \<Rightarrow> pyfloat \<Rightarrow> bool" where
  "int_le_float n (Fin r) = (of_int n \<le> r)"
| "int_le_float n PosInf = True"
| "int_le_float n NegInf = False"
| "int_le_float n NaN = False"

fun float_le_int :: "pyfloat \<Rightarrow> int \<Rightarrow> bool" where
  "float_le_int (Fin r) n = (r \<le> of_int n)"
| "float_le_int PosInf n = False"
| "float_le_int NegInf n = True"
| "float_le_int NaN n = False"

section \<open>The file system\<close>

text \<open>
  A file system maps a path to what opening it for reading and parsing it with
  \<open>json.load\<close> gives: the parsed document, or the exception raised. Serialisation followed
  by parsing is the identity on documents, so a file written by \<open>json.dump\<close> holds its
  document.
\<close>

type_synonym fs = "string \<Rightarrow> py_exn + json"

section \<open>load_locations_json.py\<close>

definition required_keys :: "string list" where
  "required_keys = [''logistics_centers'', ''sales_outlets'', ''customers'']"

text \<open>The body of the \<open>try\<close> block of lines 92 to 102.\<close>

definition try_coordinate :: "(string \<Rightarrow> pyfloat option) \<Rightarrow> string \<Rightarrow> nat \<Rightarrow> json \<Rightarrow> py_exn + json" where
  "try_coordinate sf key i loc =
     (case py_index loc 0 of Inl e \<Rightarrow> Inl e | Inr x0 \<Rightarrow>
      case py_float sf x0 of Inl e \<Rightarrow> Inl e | Inr lat \<Rightarrow>
      case py_index loc 1 of Inl e \<Rightarrow> Inl e | Inr x1 \<Rightarrow>
      case py_float sf x1 of Inl e \<Rightarrow> Inl e | Inr lon \<Rightarrow>
      if \<not> (int_le_float (- 90) lat \<and> float_le_int lat 90)
        then Inl (ValueError, InvalidLatitude lat key i)
      else if \<not> (int_le_float (- 180) lon \<and> float_le_int lon 180)
        then Inl (ValueError, InvalidLongitude lon key i)
      else Inr (JList [JFloat lat, JFloat lon]))"

text \<open>The \<open>try\<close> statement with its handler \<open>except (ValueError, TypeError) as e\<close>.\<close>

definition convert_location :: "(string \<Rightarrow> pyfloat option) \<Rightarrow> string \<Rightarrow> nat \<Rightarrow> json \<Rightarrow> py_exn + json" where
  "convert_location sf key i loc =
     (case try_coordinate sf key i loc of
        Inl e \<Rightarrow>
          if fst e = ValueError \<or> fst e = TypeError
          then Inl (ValueError, InvalidCoordinateValues key i (snd e))
          else Inl e
      | Inr v \<Rightarrow> Inr v)"

text \<open>
  The loop \<open>for i, loc in enumerate(location_list)\<close>: \<open>i\<close> is the index of the next
  element, \<open>validated\<close> the list built so far.
\<close>

fun validate_each :: "(string \<Rightarrow> pyfloat option) \<Rightarrow> string \<Rightarrow> nat \<Rightarrow> json list \<Rightarrow> json list \<Rightarrow> py_exn + json list" where
  "validate_each sf key i [] validated = Inr validated"
| "validate_each sf key i (loc # rest) validated =
     (if \<not> is_list_or_tuple loc \<or> py_len loc \<noteq> Inr 2
      then Inl (ValueError, MustBePair i key)
      else case convert_location sf key i loc of
             Inl e \<Rightarrow> Inl e
           | Inr pair \<Rightarrow> validate_each sf key (Suc i) rest (validated @ [pair]))"

text \<open>
  The body of \<open>for key in required_keys\<close>: the warnings logged and either the exception
  raised or the value stored under \<open>result[key]\<close>.
\<close>

definition process_key :: "(string \<Rightarrow> pyfloat option) \<Rightarrow> dict \<Rightarrow> string \<Rightarrow> log \<times> (py_exn + json)" where
  "process_key sf locations key =
     (if \<not> dict_contains locations key
      then ([(WARNING, MissingKey key)], Inr (JList []))
      else case dict_getitem locations key of
             Inl e \<Rightarrow> ([], Inl e)
           | Inr location_list \<Rightarrow>
               (case location_list of
                  JList locs \<Rightarrow>
                    (case validate_each sf key 0 locs [] of
                       Inl e \<Rightarrow> ([], Inl e)
                     | Inr validated \<Rightarrow> ([], Inr (JList validated)))
                | _ \<Rightarrow> ([], Inl (ValueError, MustBeList key))))"

text \<open>The loop over the required keys, threading the log and the \<open>result\<close> dictionary.\<close>

fun process_keys :: "(string \<Rightarrow> pyfloat option) \<Rightarrow> dict \<Rightarrow> string list \<Rightarrow> log \<Rightarrow> dict \<Rightarrow> log \<times> (py_exn + dict)" where
  "process_keys sf locations [] lg result = (lg, Inr result)"
| "process_keys sf locations (key # keys) lg result =
     (case process_key sf locations key of
        (l, Inl e) \<Rightarrow> (lg @ l, Inl e)
      | (l, Inr v) \<Rightarrow> process_keys sf locations keys (lg @ l) (dict_setitem result key v))"

text \<open>\<open>len(result[key])\<close>.\<close>

definition len_at :: "dict \<Rightarrow> string \<Rightarrow> py_exn + nat" where
  "len_at d key = (case dict_getitem d key of Inl e \<Rightarrow> Inl e | Inr v \<Rightarrow> py_len v)"

text \<open>Lines 62 to 117: the validation of the parsed document \<open>data\<close>, after the log \<open>lg\<close>.\<close>

definition validate_document :: "(string \<Rightarrow> pyfloat option) \<Rightarrow> log \<Rightarrow> json \<Rightarrow> log \<times> (py_exn + json)" where
  "validate_document sf lg data =
     (case data of
        JDict top_level \<Rightarrow>
          if \<not> dict_contains top_level ''locations'' then (lg, Inl (ValueError, NoLocationsKey))
          else
            (case dict_getitem top_level ''locations'' of
               Inl e \<Rightarrow> (lg, Inl e)
             | Inr locations \<Rightarrow>
                 (case locations of
                    JDict locs \<Rightarrow>
                      (case process_keys sf locs required_keys lg [] of
                         (lg1, Inl e) \<Rightarrow> (lg1, Inl e)
                       | (lg1, Inr result) \<Rightarrow>
                           (case len_at result ''logistics_centers'' of Inl e \<Rightarrow> (lg1, Inl e) | Inr n1 \<Rightarrow>
                            case len_at result ''sales_outlets'' of Inl e \<Rightarrow> (lg1, Inl e) | Inr n2 \<Rightarrow>
                            case len_at result ''customers'' of Inl e \<Rightarrow> (lg1, Inl e) | Inr n3 \<Rightarrow>
                              (let lg2 = lg1 @ [(INFO, LoadedSummary n1 n2 n3)] in
                               case len_at result ''logistics_centers'' of Inl e \<Rightarrow> (lg2, Inl e) | Inr n \<Rightarrow>
                                 if n = 0 then (lg2, Inl (ValueError, NeedLogisticsCenter))
                                 else (lg2, Inr (JDict result)))))
                  | _ \<Rightarrow> (lg, Inl (ValueError, LocationsNotDict))))
      | _ \<Rightarrow> (lg, Inl (ValueError, RootNotDict)))"

text \<open>
  \<open>load_locations_from_json(filepath)\<close>: the log written and either the exception raised
  or the dictionary returned.
\<close>

definition load_locations_from_json :: "(string \<Rightarrow> pyfloat option) \<Rightarrow> fs \<Rightarrow> string \<Rightarrow> log \<times> (py_exn + json)" where
  "load_locations_from_json sf files filepath =
     (let lg = [(INFO, LoadingFile filepath)] in
      case files filepath of
        Inl e \<Rightarrow>
          if fst e = FileNotFoundError
            then (lg @ [(ERROR, FileNotFoundLog filepath)],
                  Inl (FileNotFoundError, LocationFileNotFound filepath))
          else if fst e = JSONDecodeError
            then (lg @ [(ERROR, InvalidJsonLog filepath (snd e))],
                  Inl (JSONDecodeError, InvalidJsonFormat (snd e)))
          else (lg @ [(ERROR, UnexpectedReadLog filepath (snd e))], Inl e)
      | Inr data \<Rightarrow> validate_document sf lg data)"

text \<open>\<open>validate_locations_structure(locations)\<close>, lines 120 to 140.\<close>

fun structure_keys :: "dict \<Rightarrow> string list \<Rightarrow> py_exn + bool" where
  "structure_keys d [] = Inr True"
| "structure_keys d (key # keys) =
     (if \<not> dict_contains d key then Inr False
      else case dict_getitem d key of
             Inl e \<Rightarrow> Inl e
           | Inr v \<Rightarrow> if \<not> is_list v then Inr False else structure_keys d keys)"

definition validate_locations_structure :: "json \<Rightarrow> py_exn + bool" where
  "validate_locations_structure locations =
     (case locations of
        JDict d \<Rightarrow> structure_keys d required_keys
      | _ \<Rightarrow> Inr False)"

text \<open>\<open>get_location_counts(locations)\<close>, lines 143 to 157.\<close>

definition get_location_counts :: "json \<Rightarrow> py_exn + json" where
  "get_location_counts locations =
     (case py_get locations ''logistics_centers'' (JList []) of Inl e \<Rightarrow> Inl e | Inr v1 \<Rightarrow>
      case py_len v1 of Inl e \<Rightarrow> Inl e | Inr n1 \<Rightarrow>
      case py_get locations ''sales_outlets'' (JList []) of Inl e \<Rightarrow> Inl e | Inr v2 \<Rightarrow>
      case py_len v2 of Inl e \<Rightarrow> Inl e | Inr n2 \<Rightarrow>
      case py_get locations ''customers'' (JList []) of Inl e \<Rightarrow> Inl e | Inr v3 \<Rightarrow>
      case py_len v3 of Inl e \<Rightarrow> Inl e | Inr n3 \<Rightarrow>
        Inr (JDict [(''num_logistics_centers'', JInt (int n1)),
                    (''num_sales_outlets'', JInt (int n2)),
                    (''num_customers'', JInt (int n3))]))"

section \<open>save_locations_json.py\<close>

text \<open>
  What the function cannot compute by itself: whether \<open>os.makedirs(output_dir,
  exist_ok=True)\<close> raises, whether opening the file for writing and dumping the document
  raises (and what the path then reads as), and the two readings of the clock,
  \<open>datetime.now().strftime('%Y%m%d_%H%M%S')\<close> and \<open>datetime.now().isoformat()\<close>.
\<close>

record os_env =
  makedirs_raises :: "string \<Rightarrow> py_exn option"
  write_raises :: "string \<Rightarrow> (py_exn \<times> (py_exn + json)) option"
  strftime_now :: string
  isoformat_now :: string

text \<open>How a call ends: an exception reaches the caller, or a value is returned.\<close>

datatype outcome = Raised py_exn | Returned "string option"

text \<open>\<open>os.path.join\<close> of two components, on POSIX.\<close>

definition os_path_join :: "string \<Rightarrow> string \<Rightarrow> string" where
  "os_path_join a b =
     (if b \<noteq> [] \<and> hd b = CHR ''/'' then b
      else if a = [] \<or> last a = CHR ''/'' then a @ b
      else a @ ''/'' @ b)"

text \<open>Lines 33 to 41: the dictionary \<open>data_to_save\<close>.\<close>

definition data_to_save :: "os_env \<Rightarrow> json \<Rightarrow> py_exn + json" where
  "data_to_save os generated_locations =
     (let timestamp = JStr (isoformat_now os) in
      case py_get generated_locations ''logistics_centers'' (JList []) of Inl e \<Rightarrow> Inl e | Inr v1 \<Rightarrow>
      case py_len v1 of Inl e \<Rightarrow> Inl e | Inr n1 \<Rightarrow>
      case py_get generated_locations ''sales_outlets'' (JList []) of Inl e \<Rightarrow> Inl e | Inr v2 \<Rightarrow>
      case py_len v2 of Inl e \<Rightarrow> Inl e | Inr n2 \<Rightarrow>
      case py_get generated_locations ''customers'' (JList []) of Inl e \<Rightarrow> Inl e | Inr v3 \<Rightarrow>
      case py_len v3 of Inl e \<Rightarrow> Inl e | Inr n3 \<Rightarrow>
        Inr (JDict [(''metadata'',
                     JDict [(''timestamp'', timestamp),
                            (''num_logistics_centers'', JInt (int n1)),
                            (''num_sales_outlets'', JInt (int n2)),
                            (''num_customers'', JInt (int n3))]),
                    (''locations'', generated_locations)]))"

text \<open>
  \<open>save_locations_json(generated_locations, output_dir)\<close>: the file system afterwards,
  the log written, and how the call ends. The call of \<open>os.makedirs\<close> stands before the
  \<open>try\<close> statement; the handler \<open>except Exception\<close> covers lines 32 to 48.
\<close>

definition save_locations_json :: "os_env \<Rightarrow> fs \<Rightarrow> json \<Rightarrow> string \<Rightarrow> fs \<times> log \<times> outcome" where
  "save_locations_json os files generated_locations output_dir =
     (if \<not> truthy generated_locations
      then (files, [(WARNING, NoLocationsToSave)], Returned None)
      else
        case makedirs_raises os output_dir of
          Some e \<Rightarrow> (files, [], Raised e)
        | None \<Rightarrow>
            (let filename = ''locations_'' @ strftime_now os @ ''.json'';
                 filepath = os_path_join output_dir filename
             in case data_to_save os generated_locations of
                  Inl e \<Rightarrow> (files, [(ERROR, ErrorSaving (snd e))], Returned None)
                | Inr doc \<Rightarrow>
                    (case write_raises os filepath of
                       Some (e, left) \<Rightarrow>
                         (files(filepath := left), [(ERROR, ErrorSaving (snd e))], Returned None)
                     | None \<Rightarrow>
                         (files(filepath := Inr doc), [(INFO, SavedTo filepath)],
                          Returned (Some filepath)))))"

section \<open>Notions of the specification\<close>

text \<open>
  The coordinate invariant: finite, latitude in \<open>[-90, 90]\<close>, longitude in
  \<open>[-180, 180]\<close>.
\<close>

fun in_lat :: "pyfloat \<Rightarrow> bool" where
  "in_lat (Fin r) = (- 90 \<le> r \<and> r \<le> 90)"
| "in_lat _ = False"

fun in_lon :: "pyfloat \<Rightarrow> bool" where
  "in_lon (Fin r) = (- 180 \<le> r \<and> r \<le> 180)"
| "in_lon _ = False"

text \<open>A normalised coordinate: a list of two floats that satisfy the invariant.\<close>

fun is_coordinate :: "json \<Rightarrow> bool" where
  "is_coordinate (JList [JFloat lat, JFloat lon]) = (in_lat lat \<and> in_lon lon)"
| "is_coordinate _ = False"

text \<open>
  The numeric pair of a source element: its two components converted with \<open>float\<close>,
  when it is a two-element list and both conversions succeed.
\<close>

fun float_pair :: "(string \<Rightarrow> pyfloat option) \<Rightarrow> json \<Rightarrow> json option" where
  "float_pair sf (JList [a, b]) =
     (case py_float sf a of Inl _ \<Rightarrow> None | Inr lat \<Rightarrow>
      case py_float sf b of Inl _ \<Rightarrow> None | Inr lon \<Rightarrow> Some (JList [JFloat lat, JFloat lon]))"
| "float_pair sf _ = None"

text \<open>
  \<open>ys\<close> is the list under \<open>key\<close> of the source, element by element and in the same
  order, each element converted to its numeric pair; the empty list when the key is absent.
\<close>

definition source_order :: "(string \<Rightarrow> pyfloat option) \<Rightarrow> dict \<Rightarrow> string \<Rightarrow> json list \<Rightarrow> bool" where
  "source_order sf locs key ys =
     (case map_of locs key of
        None \<Rightarrow> ys = []
      | Some (JList xs) \<Rightarrow> map (float_pair sf) xs = map Some ys
      | Some _ \<Rightarrow> False)"

text \<open>
  An element that validates: a two-element list whose components convert to a latitude and
  a longitude in range. A key that validates: absent, or bound to a list of such elements.
\<close>

definition valid_element :: "(string \<Rightarrow> pyfloat option) \<Rightarrow> json \<Rightarrow> bool" where
  "valid_element sf x = (case float_pair sf x of None \<Rightarrow> False | Some y \<Rightarrow> is_coordinate y)"

definition valid_key :: "(string \<Rightarrow> pyfloat option) \<Rightarrow> dict \<Rightarrow> string \<Rightarrow> bool" where
  "valid_key sf locs key =
     (case map_of locs key of
        None \<Rightarrow> True
      | Some (JList xs) \<Rightarrow> list_all (valid_element sf) xs
      | Some _ \<Rightarrow> False)"

text \<open>A two-element list.\<close>

fun is_pair :: "json \<Rightarrow> bool" where
  "is_pair (JList [a, b]) = True"
| "is_pair _ = False"

text \<open>
  A message states a value, a key and an index when it is one of the two range messages
  with these arguments, or wraps such a message.
\<close>

fun states :: "msg \<Rightarrow> pyfloat \<Rightarrow> string \<Rightarrow> nat \<Rightarrow> bool" where
  "states (InvalidLatitude v k i) v' k' i' = (v = v' \<and> k = k' \<and> i = i')"
| "states (InvalidLongitude v k i) v' k' i' = (v = v' \<and> k = k' \<and> i = i')"
| "states (InvalidCoordinateValues k i m) v' k' i' = (k = k' \<and> i = i' \<and> states m v' k' i')"
| "states _ v' k' i' = False"




section \<open>Concrete inputs\<close>

text \<open>A parser of float literals that accepts no string; the inputs below hold no strings as coordinates.\<close>

definition no_literals :: "string \<Rightarrow> pyfloat option" where
  "no_literals s = None"

text \<open>A file system with one file, \<open>path\<close>, holding \<open>doc\<close>.\<close>

definition single_file :: "string \<Rightarrow> json \<Rightarrow> fs" where
  "single_file path doc p =
     (if p = path then Inr doc else Inl (FileNotFoundError, Builtin ''No such file or directory''))"

text \<open>An operating system on which every call succeeds, at a fixed time.\<close>

definition quiet_os :: os_env where
  "quiet_os =
     \<lparr> makedirs_raises = (\<lambda>d. None),
       write_raises = (\<lambda>p. None),
       strftime_now = ''20240101_120000'',
       isoformat_now = ''2024-01-01T12:00:00.123456'' \<rparr>"

text \<open>An operating system on which \<open>os.makedirs\<close> fails.\<close>

definition blocked_os :: os_env where
  "blocked_os =
     \<lparr> makedirs_raises = (\<lambda>d. Some (OSError, Builtin ''Permission denied'')),
       write_raises = (\<lambda>p. None),
       strftime_now = ''20240101_120000'',
       isoformat_now = ''2024-01-01T12:00:00.123456'' \<rparr>"

text \<open>Location sets: one logistics center; two logistics centers, no outlets key, one customer.\<close>

definition one_center :: json where
  "one_center = JDict [(''logistics_centers'', JList [JList [JFloat (Fin 0), JFloat (Fin 0)]])]"

definition sample_locations :: json where
  "sample_locations =
     JDict [(''logistics_centers'',
             JList [JList [JFloat (Fin 0), JFloat (Fin 0)], JList [JFloat (Fin 45), JFloat (Fin (- 120))]]),
            (''customers'', JList [JList [JFloat (Fin (5 / 2)), JFloat (Fin 10)]])]"

text \<open>
  Two documents with the same \<open>locations\<close>: one whose metadata counts are wrong, one
  with no metadata at all.
\<close>

definition doc_wrong_counts :: json where
  "doc_wrong_counts =
     JDict [(''metadata'',
             JDict [(''timestamp'', JStr ''never''), (''num_logistics_centers'', JInt 7),
                    (''num_sales_outlets'', JInt 7), (''num_customers'', JInt 7)]),
            (''locations'', sample_locations)]"

definition doc_no_metadata :: json where
  "doc_no_metadata = JDict [(''locations'', sample_locations)]"

text \<open>
  A file whose coordinates are integers, a float and a boolean, with an empty
  \<open>sales_outlets\<close>; what loading it returns; what saving that result writes.
\<close>

definition locs_mixed :: dict where
  "locs_mixed =
     [(''logistics_centers'',
       JList [JList [JInt 40, JFloat (Fin (- 7 / 2))], JList [JBool True, JInt 0]]),
      (''sales_outlets'', JList []),
      (''customers'', JList [JList [JInt (- 90), JInt 180]])]"

definition doc_mixed :: json where
  "doc_mixed = JDict [(''metadata'', JDict []), (''locations'', JDict locs_mixed)]"

definition loaded_mixed :: json where
  "loaded_mixed =
     JDict [(''logistics_centers'',
             JList [JList [JFloat (Fin 40), JFloat (Fin (- 7 / 2))],
                    JList [JFloat (Fin 1), JFloat (Fin 0)]]),
            (''sales_outlets'', JList []),
            (''customers'', JList [JList [JFloat (Fin (- 90)), JFloat (Fin 180)]])]"

definition saved_mixed :: json where
  "saved_mixed =
     JDict [(''metadata'',
             JDict [(''timestamp'', JStr ''2024-01-01T12:00:00.123456''),
                    (''num_logistics_centers'', JInt 2),
                    (''num_sales_outlets'', JInt 0),
                    (''num_customers'', JInt 1)]),
            (''locations'', loaded_mixed)]"





text \<open>A document without the key \<open>sales_outlets\<close>.\<close>

definition locs_no_outlets :: dict where
  "locs_no_outlets =
     [(''logistics_centers'', JList [JList [JInt 10, JInt 20]]),
      (''customers'', JList [])]"

definition doc_no_outlets :: json where
  "doc_no_outlets = JDict [(''locations'', JDict locs_no_outlets)]"

text \<open>A document whose second sales outlet has latitude 91.\<close>

definition locs_out_of_range :: dict where
  "locs_out_of_range =
     [(''logistics_centers'', JList [JList [JInt 0, JInt 0]]),
      (''sales_outlets'', JList [JList [JInt 10, JInt 10], JList [JInt 91, JInt 0]]),
      (''customers'', JList [])]"

definition doc_out_of_range :: json where
  "doc_out_of_range = JDict [(''locations'', JDict locs_out_of_range)]"

text \<open>
  A document with the coordinate \<open>[91, 0]\<close> under \<open>customers\<close> and a string under
  \<open>sales_outlets\<close>; a document whose only coordinate has the integer \<open>10 ^ 400\<close>
  as latitude.
\<close>

definition doc_masked :: json where
  "doc_masked =
     JDict [(''locations'',
             JDict [(''logistics_centers'', JList [JList [JInt 0, JInt 0]]),
                    (''sales_outlets'', JStr ''oops''),
                    (''customers'', JList [JList [JInt 91, JInt 0]])])]"

definition doc_overflow :: json where
  "doc_overflow =
     JDict [(''locations'',
             JDict [(''logistics_centers'', JList [JList [JInt (10 ^ 400), JInt 0]]),
                    (''sales_outlets'', JList []),
                    (''customers'', JList [])])]"





text \<open>
  A document without the key \<open>logistics_centers\<close>; a document whose
  \<open>logistics_centers\<close> is a string and whose other two keys are absent.
\<close>

definition locs_no_centers_key :: dict where
  "locs_no_centers_key = [(''sales_outlets'', JList []), (''customers'', JList [])]"

definition doc_no_centers_key :: json where
  "doc_no_centers_key = JDict [(''locations'', JDict locs_no_centers_key)]"

definition doc_bad_centers :: json where
  "doc_bad_centers = JDict [(''locations'', JDict [(''logistics_centers'', JStr ''oops'')])]"

section \<open>Properties of the loader\<close>

lemma in_lat_iff: "(int_le_float (- 90) f \<and> float_le_int f 90) = in_lat f"
  by (cases f) auto

lemma in_lon_iff: "(int_le_float (- 180) f \<and> float_le_int f 180) = in_lon f"
  by (cases f) auto

lemma is_coordinateE:
  assumes "is_coordinate v"
  obtains lat lon where "v = JList [JFloat lat, JFloat lon]" "in_lat lat" "in_lon lon"
  using assms by (auto elim: is_coordinate.elims)

lemma pair_shape:
  "(is_list_or_tuple loc \<and> py_len loc = Inr 2) = (\<exists>a b. loc = JList [a, b])"
  by (cases loc) (auto simp: is_list_or_tuple_def length_Suc_conv numeral_2_eq_2)

lemma try_coordinate_pair:
  "try_coordinate sf key i (JList [a, b]) =
     (case py_float sf a of Inl e \<Rightarrow> Inl e | Inr lat \<Rightarrow>
      case py_float sf b of Inl e \<Rightarrow> Inl e | Inr lon \<Rightarrow>
      if \<not> in_lat lat then Inl (ValueError, InvalidLatitude lat key i)
      else if \<not> in_lon lon then Inl (ValueError, InvalidLongitude lon key i)
      else Inr (JList [JFloat lat, JFloat lon]))"
  by (simp add: try_coordinate_def in_lat_iff in_lon_iff split: sum.splits)

lemma convert_location_Inr:
  assumes "convert_location sf key i (JList [a, b]) = Inr y"
  shows "float_pair sf (JList [a, b]) = Some y \<and> is_coordinate y"
  using assms
  by (auto simp: convert_location_def try_coordinate_pair
           split: sum.splits if_splits)

lemma convert_location_coordinate:
  assumes "is_coordinate y"
  shows "convert_location sf key i y = Inr y"
  using assms
  by (auto elim!: is_coordinateE simp: convert_location_def try_coordinate_pair)

lemma validate_each_Inr:
  assumes "validate_each sf key i xs acc = Inr ys"
  shows "\<exists>zs. ys = acc @ zs \<and> map (float_pair sf) xs = map Some zs \<and> list_all is_coordinate zs"
  using assms
proof (induction xs arbitrary: i acc)
  case Nil
  then show ?case by simp
next
  case (Cons x xs)
  from Cons.prems obtain a b where x: "x = JList [a, b]"
    using pair_shape [of x] by (auto split: if_splits)
  from Cons.prems x obtain y where y: "convert_location sf key i (JList [a, b]) = Inr y"
    and rest: "validate_each sf key (Suc i) xs (acc @ [y]) = Inr ys"
    by (auto simp: is_list_or_tuple_def split: sum.splits)
  from Cons.IH [OF rest] obtain zs where zs: "ys = (acc @ [y]) @ zs"
    "map (float_pair sf) xs = map Some zs" "list_all is_coordinate zs"
    by blast
  from convert_location_Inr [OF y] zs x show ?case
    by (intro exI [of _ "y # zs"]) simp
qed

lemma validate_each_coordinates:
  assumes "list_all is_coordinate ys"
  shows "validate_each sf key i ys acc = Inr (acc @ ys)"
  using assms
proof (induction ys arbitrary: i acc)
  case Nil
  then show ?case by simp
next
  case (Cons y ys)
  then have c: "is_coordinate y" and r: "list_all is_coordinate ys" by simp_all
  from c have shape: "is_list_or_tuple y \<and> py_len y = Inr 2"
    by (auto elim!: is_coordinateE simp: pair_shape)
  show ?case
    using shape convert_location_coordinate [OF c] Cons.IH [OF r] by simp
qed

lemma process_keys_required:
  "process_keys sf locs required_keys lg [] =
     (case process_key sf locs ''logistics_centers'' of
        (l1, Inl e) \<Rightarrow> (lg @ l1, Inl e)
      | (l1, Inr v1) \<Rightarrow>
         (case process_key sf locs ''sales_outlets'' of
            (l2, Inl e) \<Rightarrow> (lg @ l1 @ l2, Inl e)
          | (l2, Inr v2) \<Rightarrow>
             (case process_key sf locs ''customers'' of
                (l3, Inl e) \<Rightarrow> (lg @ l1 @ l2 @ l3, Inl e)
              | (l3, Inr v3) \<Rightarrow>
                  (lg @ l1 @ l2 @ l3,
                   Inr [(''logistics_centers'', v1), (''sales_outlets'', v2), (''customers'', v3)]))))"
  by (simp add: required_keys_def split: prod.splits sum.splits)

lemma process_key_missing:
  assumes "map_of locs key = None"
  shows "process_key sf locs key = ([(WARNING, MissingKey key)], Inr (JList []))"
  using assms by (simp add: process_key_def dict_contains_def)

lemma process_key_list:
  assumes "map_of locs key = Some (JList xs)"
  shows "process_key sf locs key =
           ([], case validate_each sf key 0 xs [] of Inl e \<Rightarrow> Inl e | Inr ys \<Rightarrow> Inr (JList ys))"
  using assms by (simp add: process_key_def dict_contains_def dict_getitem_def split: sum.splits)

lemma process_key_not_list:
  assumes "map_of locs key = Some v" and "\<not> is_list v"
  shows "process_key sf locs key = ([], Inl (ValueError, MustBeList key))"
  using assms by (cases v) (simp_all add: process_key_def dict_contains_def dict_getitem_def)

lemma process_key_Inr:
  assumes "process_key sf locs key = (l, Inr v)"
  obtains ys where "v = JList ys" "list_all is_coordinate ys" "source_order sf locs key ys"
proof (cases "map_of locs key")
  case None
  with assms have "v = JList []"
    by (simp add: process_key_missing)
  with None that show ?thesis
    by (simp add: source_order_def)
next
  case (Some w)
  show ?thesis
  proof (cases "is_list w")
    case False
    with Some assms show ?thesis
      by (simp add: process_key_not_list)
  next
    case True
    then obtain xs where w: "w = JList xs" by (cases w) simp_all
    with Some assms obtain ys where ys: "validate_each sf key 0 xs [] = Inr ys" "v = JList ys"
      by (auto simp: process_key_list split: sum.splits)
    from validate_each_Inr [OF ys(1)] have "map (float_pair sf) xs = map Some ys" "list_all is_coordinate ys"
      by auto
    with Some w ys that show ?thesis
      by (simp add: source_order_def)
  qed
qed

lemma len_at_three:
  "len_at [(''logistics_centers'', JList a), (''sales_outlets'', JList b), (''customers'', JList c)]
      ''logistics_centers'' = Inr (length a)"
  "len_at [(''logistics_centers'', JList a), (''sales_outlets'', JList b), (''customers'', JList c)]
      ''sales_outlets'' = Inr (length b)"
  "len_at [(''logistics_centers'', JList a), (''sales_outlets'', JList b), (''customers'', JList c)]
      ''customers'' = Inr (length c)"
  by (simp_all add: len_at_def dict_getitem_def)

lemma validate_document_locations:
  assumes "map_of doc ''locations'' = Some (JDict locs)"
  shows "validate_document sf lg (JDict doc) =
     (case process_keys sf locs required_keys lg [] of
        (lg1, Inl e) \<Rightarrow> (lg1, Inl e)
      | (lg1, Inr result) \<Rightarrow>
          (case len_at result ''logistics_centers'' of Inl e \<Rightarrow> (lg1, Inl e) | Inr n1 \<Rightarrow>
           case len_at result ''sales_outlets'' of Inl e \<Rightarrow> (lg1, Inl e) | Inr n2 \<Rightarrow>
           case len_at result ''customers'' of Inl e \<Rightarrow> (lg1, Inl e) | Inr n3 \<Rightarrow>
             (let lg2 = lg1 @ [(INFO, LoadedSummary n1 n2 n3)] in
              case len_at result ''logistics_centers'' of Inl e \<Rightarrow> (lg2, Inl e) | Inr n \<Rightarrow>
                if n = 0 then (lg2, Inl (ValueError, NeedLogisticsCenter))
                else (lg2, Inr (JDict result)))))"
  using assms by (simp add: validate_document_def dict_contains_def dict_getitem_def)

lemma validate_document_err1:
  assumes "map_of doc ''locations'' = Some (JDict locs)"
    and "process_key sf locs ''logistics_centers'' = (l1, Inl e)"
  shows "validate_document sf lg (JDict doc) = (lg @ l1, Inl e)"
  using assms(2) by (simp add: validate_document_locations [OF assms(1)] process_keys_required)

lemma validate_document_err2:
  assumes "map_of doc ''locations'' = Some (JDict locs)"
    and "process_key sf locs ''logistics_centers'' = (l1, Inr v1)"
    and "process_key sf locs ''sales_outlets'' = (l2, Inl e)"
  shows "validate_document sf lg (JDict doc) = (lg @ l1 @ l2, Inl e)"
  using assms(2,3) by (simp add: validate_document_locations [OF assms(1)] process_keys_required)

lemma validate_document_err3:
  assumes "map_of doc ''locations'' = Some (JDict locs)"
    and "process_key sf locs ''logistics_centers'' = (l1, Inr v1)"
    and "process_key sf locs ''sales_outlets'' = (l2, Inr v2)"
    and "process_key sf locs ''customers'' = (l3, Inl e)"
  shows "validate_document sf lg (JDict doc) = (lg @ l1 @ l2 @ l3, Inl e)"
  using assms(2,3,4) by (simp add: validate_document_locations [OF assms(1)] process_keys_required)

lemma validate_document_three:
  assumes "map_of doc ''locations'' = Some (JDict locs)"
    and "process_key sf locs ''logistics_centers'' = (l1, Inr (JList lcs))"
    and "process_key sf locs ''sales_outlets'' = (l2, Inr (JList sos))"
    and "process_key sf locs ''customers'' = (l3, Inr (JList cus))"
  shows "validate_document sf lg (JDict doc) =
           (lg @ l1 @ l2 @ l3 @ [(INFO, LoadedSummary (length lcs) (length sos) (length cus))],
            if lcs = [] then Inl (ValueError, NeedLogisticsCenter)
            else Inr (JDict [(''logistics_centers'', JList lcs), (''sales_outlets'', JList sos),
                             (''customers'', JList cus)]))"
  using assms(2,3,4)
  by (simp add: validate_document_locations [OF assms(1)] process_keys_required len_at_three)

lemma validate_document_Inr:
  assumes "validate_document sf lg data = (lg', Inr r)"
  obtains doc locs where "data = JDict doc" "map_of doc ''locations'' = Some (JDict locs)"
proof -
  from assms obtain doc where doc: "data = JDict doc"
    by (cases data) (simp_all add: validate_document_def)
  from assms doc obtain v where v: "map_of doc ''locations'' = Some v"
    by (cases "map_of doc ''locations''") (simp_all add: validate_document_def dict_contains_def)
  from assms doc v obtain locs where "v = JDict locs"
    by (cases v) (simp_all add: validate_document_def dict_contains_def dict_getitem_def)
  with doc v that show ?thesis by simp
qed

lemma is_pair_shape: "is_pair loc = (is_list_or_tuple loc \<and> py_len loc = Inr 2)"
  unfolding pair_shape by (auto elim: is_pair.elims)

lemma validate_each_append:
  "validate_each sf key i (xs @ ys) acc =
     (case validate_each sf key i xs acc of
        Inl e \<Rightarrow> Inl e
      | Inr acc' \<Rightarrow> validate_each sf key (i + length xs) ys acc')"
  by (induction xs arbitrary: i acc) (auto split: sum.splits)

lemma convert_location_valid:
  assumes "valid_element sf x"
  shows "\<exists>y. convert_location sf key i x = Inr y"
proof -
  from assms obtain y where y: "float_pair sf x = Some y" "is_coordinate y"
    by (auto simp: valid_element_def split: option.splits)
  from y(1) obtain a b where x: "x = JList [a, b]"
    by (auto elim: float_pair.elims)
  from y x show ?thesis
    by (auto simp: convert_location_def try_coordinate_pair split: sum.splits)
qed

lemma valid_element_pair: "valid_element sf x \<Longrightarrow> is_pair x"
  by (auto simp: valid_element_def split: option.splits elim: float_pair.elims)

lemma validate_each_valid:
  assumes "list_all (valid_element sf) xs"
  shows "\<exists>ys. validate_each sf key i xs acc = Inr ys"
  using assms
proof (induction xs arbitrary: i acc)
  case Nil
  then show ?case by simp
next
  case (Cons x xs)
  then have x: "valid_element sf x" and xs: "list_all (valid_element sf) xs" by simp_all
  from convert_location_valid [OF x] obtain y where y: "convert_location sf key i x = Inr y" ..
  from valid_element_pair [OF x] have "is_list_or_tuple x \<and> py_len x = Inr 2"
    by (simp add: is_pair_shape)
  with y Cons.IH [OF xs, of "Suc i" "acc @ [y]"] show ?case by simp
qed

lemma validate_each_Inr_valid:
  assumes "validate_each sf key i xs acc = Inr ys"
  shows "list_all (valid_element sf) xs"
proof -
  from validate_each_Inr [OF assms] obtain zs where
    zs: "map (float_pair sf) xs = map Some zs" "list_all is_coordinate zs" by blast
  from zs(1) have len: "length xs = length zs"
    by (metis length_map)
  have "valid_element sf (xs ! j)" if "j < length xs" for j
  proof -
    from zs(1) that len have "float_pair sf (xs ! j) = Some (zs ! j)"
      by (metis nth_map)
    moreover from zs(2) that len have "is_coordinate (zs ! j)"
      by (simp add: list_all_length)
    ultimately show ?thesis by (simp add: valid_element_def)
  qed
  then show ?thesis by (simp add: list_all_length)
qed

lemma process_key_valid_iff:
  "(\<exists>l v. process_key sf locs key = (l, Inr v)) = valid_key sf locs key"
proof (cases "map_of locs key")
  case None
  then show ?thesis by (simp add: process_key_missing valid_key_def)
next
  case (Some w)
  show ?thesis
  proof (cases "is_list w")
    case False
    with Some show ?thesis
      by (cases w) (simp_all add: process_key_not_list valid_key_def)
  next
    case True
    then obtain xs where w: "w = JList xs" by (cases w) simp_all
    show ?thesis
    proof
      assume "\<exists>l v. process_key sf locs key = (l, Inr v)"
      with Some w obtain ys where "validate_each sf key 0 xs [] = Inr ys"
        by (auto simp: process_key_list split: sum.splits)
      from validate_each_Inr_valid [OF this] Some w show "valid_key sf locs key"
        by (simp add: valid_key_def)
    next
      assume "valid_key sf locs key"
      with Some w have "list_all (valid_element sf) xs" by (simp add: valid_key_def)
      from validate_each_valid [OF this] obtain ys where "validate_each sf key 0 xs [] = Inr ys"
        by blast
      with Some w show "\<exists>l v. process_key sf locs key = (l, Inr v)"
        by (simp add: process_key_list)
    qed
  qed
qed

lemma process_key_cases:
  obtains (fails) l e where "process_key sf locs key = (l, Inl e)" "\<not> valid_key sf locs key"
  | (passes) l ys where "process_key sf locs key = (l, Inr (JList ys))" "valid_key sf locs key"
      "list_all is_coordinate ys" "source_order sf locs key ys"
proof (cases "process_key sf locs key")
  case (Pair l res)
  show ?thesis
  proof (cases res)
    case (Inl e)
    with Pair have "\<not> valid_key sf locs key"
      using process_key_valid_iff [of sf locs key] by auto
    with Pair Inl fails show ?thesis by simp
  next
    case (Inr v)
    with Pair have p: "process_key sf locs key = (l, Inr v)" by simp
    then have "valid_key sf locs key"
      using process_key_valid_iff [of sf locs key] by auto
    with p passes show ?thesis
      by (auto elim: process_key_Inr)
  qed
qed


lemma process_keys_log:
  "process_keys sf locs keys lg result =
     (lg @ fst (process_keys sf locs keys [] result), snd (process_keys sf locs keys [] result))"
proof (induction keys arbitrary: lg result)
  case Nil
  show ?case by simp
next
  case (Cons key keys)
  show ?case
  proof (cases "process_key sf locs key")
    case (Pair l res)
    show ?thesis
    proof (cases res)
      case (Inl e)
      with Pair show ?thesis by simp
    next
      case (Inr v)
      with Pair Cons.IH [of "lg @ l" "dict_setitem result key v"]
        Cons.IH [of l "dict_setitem result key v"]
      show ?thesis by simp
    qed
  qed
qed

lemma validate_document_log:
  "validate_document sf lg data =
     (lg @ fst (validate_document sf [] data), snd (validate_document sf [] data))"
proof (cases data)
  case (JDict doc)
  show ?thesis
  proof (cases "map_of doc ''locations''")
    case None
    with JDict show ?thesis
      by (simp add: validate_document_def dict_contains_def)
  next
    case (Some v)
    show ?thesis
    proof (cases v)
      case (JDict locs)
      with Some have loc: "map_of doc ''locations'' = Some (JDict locs)" by simp
      obtain l res where keys: "process_keys sf locs required_keys [] [] = (l, res)"
        by (cases "process_keys sf locs required_keys [] []")
      then have keys': "process_keys sf locs required_keys lg [] = (lg @ l, res)"
        using process_keys_log [of sf locs required_keys lg "[]"] by simp
      show ?thesis
        unfolding \<open>data = JDict doc\<close> validate_document_locations [OF loc] keys keys'
        by (cases res) (simp_all add: Let_def split: sum.splits)
    qed (use Some \<open>data = JDict doc\<close> in
          \<open>simp_all add: validate_document_def dict_contains_def dict_getitem_def\<close>)
  qed
qed (simp_all add: validate_document_def)

lemma load_Inr_document:
  assumes "load_locations_from_json sf files filepath = (lg, Inr r)"
  obtains data where "files filepath = Inr data"
    "validate_document sf [(INFO, LoadingFile filepath)] data = (lg, Inr r)"
proof (cases "files filepath")
  case (Inl e)
  with assms show ?thesis
    by (simp add: load_locations_from_json_def Let_def split: if_splits)
next
  case (Inr data)
  with assms that show ?thesis
    by (simp add: load_locations_from_json_def)
qed

lemma validate_document_Inr_shape:
  assumes "validate_document sf lg0 data = (lg, Inr r)"
  shows "\<exists>doc locs lcs sos cus.
           data = JDict doc \<and> map_of doc ''locations'' = Some (JDict locs)
         \<and> r = JDict [(''logistics_centers'', JList lcs), (''sales_outlets'', JList sos),
                      (''customers'', JList cus)]
         \<and> list_all is_coordinate lcs \<and> list_all is_coordinate sos \<and> list_all is_coordinate cus
         \<and> source_order sf locs ''logistics_centers'' lcs
         \<and> source_order sf locs ''sales_outlets'' sos
         \<and> source_order sf locs ''customers'' cus
         \<and> lcs \<noteq> []"
proof -
  from assms obtain doc locs where d: "data = JDict doc" "map_of doc ''locations'' = Some (JDict locs)"
    by (rule validate_document_Inr)
  note v = assms [unfolded d(1)]
  show ?thesis
  proof (cases sf locs "''logistics_centers''" rule: process_key_cases)
    case (fails l e)
    from v validate_document_err1 [OF d(2) fails(1), of lg0] show ?thesis by simp
  next
    case p1: (passes l1 lcs)
    show ?thesis
    proof (cases sf locs "''sales_outlets''" rule: process_key_cases)
      case (fails l e)
      from v validate_document_err2 [OF d(2) p1(1) fails(1), of lg0] show ?thesis by simp
    next
      case p2: (passes l2 sos)
      show ?thesis
      proof (cases sf locs "''customers''" rule: process_key_cases)
        case (fails l e)
        from v validate_document_err3 [OF d(2) p1(1) p2(1) fails(1), of lg0] show ?thesis by simp
      next
        case p3: (passes l3 cus)
        from v validate_document_three [OF d(2) p1(1) p2(1) p3(1), of lg0]
        have ne: "lcs \<noteq> []"
          and r: "r = JDict [(''logistics_centers'', JList lcs), (''sales_outlets'', JList sos),
                      (''customers'', JList cus)]"
          by (auto split: if_splits)
        show ?thesis
          by (rule exI [of _ doc], rule exI [of _ locs], rule exI [of _ lcs], rule exI [of _ sos],
              rule exI [of _ cus])
             (use d r ne p1 p2 p3 in simp)
      qed
    qed
  qed
qed

lemma process_key_coordinates:
  assumes "map_of locs key = Some (JList ys)" and "list_all is_coordinate ys"
  shows "process_key sf locs key = ([], Inr (JList ys))"
  using validate_each_coordinates [OF assms(2), of sf key 0 "[]"]
  by (simp add: process_key_list [OF assms(1)])

lemma validate_document_normalised:
  assumes "map_of doc ''locations'' =
             Some (JDict [(''logistics_centers'', JList lcs), (''sales_outlets'', JList sos),
                          (''customers'', JList cus)])"
    and "list_all is_coordinate lcs" and "list_all is_coordinate sos" and "list_all is_coordinate cus"
    and "lcs \<noteq> []"
  shows "snd (validate_document sf lg (JDict doc)) =
           Inr (JDict [(''logistics_centers'', JList lcs), (''sales_outlets'', JList sos),
                       (''customers'', JList cus)])"
proof -
  let ?locs = "[(''logistics_centers'', JList lcs), (''sales_outlets'', JList sos),
               (''customers'', JList cus)]"
  have k1: "process_key sf ?locs ''logistics_centers'' = ([], Inr (JList lcs))"
    by (rule process_key_coordinates [OF _ assms(2)]) simp
  have k2: "process_key sf ?locs ''sales_outlets'' = ([], Inr (JList sos))"
    by (rule process_key_coordinates [OF _ assms(3)]) simp
  have k3: "process_key sf ?locs ''customers'' = ([], Inr (JList cus))"
    by (rule process_key_coordinates [OF _ assms(4)]) simp
  from validate_document_three [OF assms(1) k1 k2 k3, of lg] assms(5) show ?thesis
    by simp
qed

lemma validate_each_reaches:
  assumes "i < length xs" and "list_all (valid_element sf) (take i xs)"
  shows "\<exists>acc. validate_each sf key 0 xs [] = validate_each sf key i (xs ! i # drop (Suc i) xs) acc"
proof -
  from validate_each_valid [OF assms(2), of key 0 "[]"] obtain acc where
    acc: "validate_each sf key 0 (take i xs) [] = Inr acc" ..
  from assms(1) have xs: "xs = take i xs @ xs ! i # drop (Suc i) xs"
    by (simp add: id_take_nth_drop)
  from assms(1) have len: "length (take i xs) = i" by simp
  have "validate_each sf key 0 (take i xs @ xs ! i # drop (Suc i) xs) [] =
          validate_each sf key i (xs ! i # drop (Suc i) xs) acc"
    using assms(1) by (simp add: validate_each_append acc min_absorb2)
  with xs show ?thesis by metis
qed


lemma process_key_out_of_range:
  assumes "map_of locs key = Some (JList xs)" and "i < length xs"
    and "list_all (valid_element sf) (take i xs)" and "xs ! i = JList [a, b]"
    and "py_float sf a = Inr lat" and "py_float sf b = Inr lon"
    and "\<not> in_lat lat \<or> \<not> in_lon lon"
  shows "process_key sf locs key =
           ([], Inl (ValueError, InvalidCoordinateValues key i
                       (if \<not> in_lat lat then InvalidLatitude lat key i
                        else InvalidLongitude lon key i)))"
proof -
  from validate_each_reaches [OF assms(2,3), of key] obtain acc where
    reach: "validate_each sf key 0 xs [] = validate_each sf key i (xs ! i # drop (Suc i) xs) acc" ..
  have shape: "is_list_or_tuple (JList [a, b]) \<and> py_len (JList [a, b]) = Inr 2"
    by (simp add: is_list_or_tuple_def)
  have conv: "convert_location sf key i (JList [a, b]) =
                Inl (ValueError, InvalidCoordinateValues key i
                       (if \<not> in_lat lat then InvalidLatitude lat key i
                        else InvalidLongitude lon key i))"
    using assms(5,6,7) by (auto simp: convert_location_def try_coordinate_pair)
  from reach shape conv assms(4) have "validate_each sf key 0 xs [] =
                Inl (ValueError, InvalidCoordinateValues key i
                       (if \<not> in_lat lat then InvalidLatitude lat key i
                        else InvalidLongitude lon key i))"
    by simp
  then show ?thesis
    by (simp add: process_key_list [OF assms(1)])
qed

lemma load_document:
  assumes "files filepath = Inr data"
  shows "load_locations_from_json sf files filepath =
           validate_document sf [(INFO, LoadingFile filepath)] data"
  using assms by (simp add: load_locations_from_json_def)



lemma process_key_valid:
  assumes "valid_key sf locs key"
  obtains l ys where "process_key sf locs key = (l, Inr (JList ys))"
    "list_all is_coordinate ys" "source_order sf locs key ys"
proof (cases sf locs key rule: process_key_cases)
  case (fails l e)
  with assms show ?thesis by simp
next
  case (passes l ys)
  with that show ?thesis by simp
qed


lemma load_all_valid:
  assumes "files filepath = Inr (JDict doc)" and "map_of doc ''locations'' = Some (JDict locs)"
    and "valid_key sf locs ''logistics_centers''" and "valid_key sf locs ''sales_outlets''"
    and "valid_key sf locs ''customers''"
  obtains l1 l2 l3 lcs sos cus where
    "process_key sf locs ''logistics_centers'' = (l1, Inr (JList lcs))"
    "process_key sf locs ''sales_outlets'' = (l2, Inr (JList sos))"
    "process_key sf locs ''customers'' = (l3, Inr (JList cus))"
    "source_order sf locs ''logistics_centers'' lcs"
    "load_locations_from_json sf files filepath =
       ([(INFO, LoadingFile filepath)] @ l1 @ l2 @ l3 @
          [(INFO, LoadedSummary (length lcs) (length sos) (length cus))],
        if lcs = [] then Inl (ValueError, NeedLogisticsCenter)
        else Inr (JDict [(''logistics_centers'', JList lcs), (''sales_outlets'', JList sos),
                         (''customers'', JList cus)]))"
proof -
  from assms(3) obtain l1 lcs where p1: "process_key sf locs ''logistics_centers'' = (l1, Inr (JList lcs))"
    and o1: "source_order sf locs ''logistics_centers'' lcs"
    by (rule process_key_valid)
  from assms(4) obtain l2 sos where p2: "process_key sf locs ''sales_outlets'' = (l2, Inr (JList sos))"
    by (rule process_key_valid)
  from assms(5) obtain l3 cus where p3: "process_key sf locs ''customers'' = (l3, Inr (JList cus))"
    by (rule process_key_valid)
  have "load_locations_from_json sf files filepath =
       ([(INFO, LoadingFile filepath)] @ l1 @ l2 @ l3 @
          [(INFO, LoadedSummary (length lcs) (length sos) (length cus))],
        if lcs = [] then Inl (ValueError, NeedLogisticsCenter)
        else Inr (JDict [(''logistics_centers'', JList lcs), (''sales_outlets'', JList sos),
                         (''customers'', JList cus)]))"
    unfolding load_document [of files filepath _ sf, OF assms(1)]
    by (rule validate_document_three [OF assms(2) p1 p2 p3])
  then show ?thesis
    by (rule that [OF p1 p2 p3 o1])
qed







text \<open>
  The outcome of the loader when the step for \<open>logistics_centers\<close> stores the empty list.
\<close>

lemma no_centers_outcome:
  assumes "files filepath = Inr (JDict doc)" and "map_of doc ''locations'' = Some (JDict locs)"
    and "process_key sf locs ''logistics_centers'' = (l1, Inr (JList []))"
  shows "snd (load_locations_from_json sf files filepath) =
           (case snd (process_key sf locs ''sales_outlets'') of
              Inl e \<Rightarrow> Inl e
            | Inr _ \<Rightarrow>
                (case snd (process_key sf locs ''customers'') of
                   Inl e \<Rightarrow> Inl e
                 | Inr _ \<Rightarrow> Inl (ValueError, NeedLogisticsCenter)))"
proof -
  note k1 = assms(3)
  show ?thesis
  proof (cases sf locs "''sales_outlets''" rule: process_key_cases)
    case (fails l e)
    with validate_document_err2 [OF assms(2) k1 fails(1)] show ?thesis
      by (simp add: load_document [of files filepath _ sf, OF assms(1)])
  next
    case p2: (passes l2 sos)
    show ?thesis
    proof (cases sf locs "''customers''" rule: process_key_cases)
      case (fails l e)
      with p2 validate_document_err3 [OF assms(2) k1 p2(1) fails(1)] show ?thesis
        by (simp add: load_document [of files filepath _ sf, OF assms(1)])
    next
      case p3: (passes l3 cus)
      with p2 validate_document_three [OF assms(2) k1 p2(1) p3(1)] show ?thesis
        by (simp add: load_document [of files filepath _ sf, OF assms(1)])
    qed
  qed
qed

lemma no_centers_fails:
  assumes "files filepath = Inr (JDict doc)" and "map_of doc ''locations'' = Some (JDict locs)"
    and "process_key sf locs ''logistics_centers'' = (l1, Inr (JList []))"
  shows "\<exists>e. snd (load_locations_from_json sf files filepath) = Inl e"
  unfolding no_centers_outcome [of files filepath doc locs sf, OF assms]
  by (simp split: sum.splits)

lemma no_centers_emptiness:
  assumes "files filepath = Inr (JDict doc)" and "map_of doc ''locations'' = Some (JDict locs)"
    and "process_key sf locs ''logistics_centers'' = (l1, Inr (JList []))"
    and "valid_key sf locs ''sales_outlets''" and "valid_key sf locs ''customers''"
  shows "snd (load_locations_from_json sf files filepath) = Inl (ValueError, NeedLogisticsCenter)"
proof -
  from assms(4) obtain l2 sos where p2: "process_key sf locs ''sales_outlets'' = (l2, Inr (JList sos))"
    by (rule process_key_valid)
  from assms(5) obtain l3 cus where p3: "process_key sf locs ''customers'' = (l3, Inr (JList cus))"
    by (rule process_key_valid)
  show ?thesis
    unfolding no_centers_outcome [of files filepath doc locs sf, OF assms(1,2,3)]
    by (simp add: p2 p3)
qed


text \<open>The log of a load holds what each step reached has logged.\<close>

lemma load_log_reaches:
  assumes "files filepath = Inr (JDict doc)" and "map_of doc ''locations'' = Some (JDict locs)"
  shows "set (fst (process_key sf locs ''logistics_centers''))
           \<subseteq> set (fst (load_locations_from_json sf files filepath))
     \<and> (valid_key sf locs ''logistics_centers'' \<longrightarrow>
         set (fst (process_key sf locs ''sales_outlets''))
           \<subseteq> set (fst (load_locations_from_json sf files filepath)))
     \<and> (valid_key sf locs ''logistics_centers'' \<longrightarrow> valid_key sf locs ''sales_outlets'' \<longrightarrow>
         set (fst (process_key sf locs ''customers''))
           \<subseteq> set (fst (load_locations_from_json sf files filepath)))"
proof -
  note ld = load_document [of files filepath _ sf, OF assms(1)]
  show ?thesis
  proof (cases sf locs "''logistics_centers''" rule: process_key_cases)
    case (fails l e)
    with validate_document_err1 [OF assms(2) fails(1), of "[(INFO, LoadingFile filepath)]"]
    show ?thesis by (auto simp: ld)
  next
    case p1: (passes l1 lcs)
    show ?thesis
    proof (cases sf locs "''sales_outlets''" rule: process_key_cases)
      case (fails l e)
      with p1 validate_document_err2 [OF assms(2) p1(1) fails(1), of "[(INFO, LoadingFile filepath)]"]
      show ?thesis by (auto simp: ld)
    next
      case p2: (passes l2 sos)
      show ?thesis
      proof (cases sf locs "''customers''" rule: process_key_cases)
        case (fails l e)
        with p1 p2
          validate_document_err3 [OF assms(2) p1(1) p2(1) fails(1), of "[(INFO, LoadingFile filepath)]"]
        show ?thesis by (auto simp: ld)
      next
        case p3: (passes l3 cus)
        with p1 p2
          validate_document_three [OF assms(2) p1(1) p2(1) p3(1), of "[(INFO, LoadingFile filepath)]"]
        show ?thesis by (auto simp: ld)
      qed
    qed
  qed
qed

lemma missing_key_warning_logged:
  assumes "files filepath = Inr (JDict doc)" and "map_of doc ''locations'' = Some (JDict locs)"
    and "key \<in> set required_keys" and "map_of locs key = None"
    and "\<forall>k \<in> set (takeWhile (\<lambda>k. k \<noteq> key) required_keys). valid_key sf locs k"
  shows "(WARNING, MissingKey key) \<in> set (fst (load_locations_from_json sf files filepath))"
proof -
  have step: "(WARNING, MissingKey key) \<in> set (fst (process_key sf locs key))"
    by (simp add: process_key_missing [OF assms(4)])
  note reach = load_log_reaches [of files filepath doc locs sf, OF assms(1,2)]
  from assms(3) have "key = ''logistics_centers'' \<or> key = ''sales_outlets'' \<or> key = ''customers''"
    by (simp add: required_keys_def)
  then consider "key = ''logistics_centers''" | "key = ''sales_outlets''" | "key = ''customers''"
    by (elim disjE)
  then show ?thesis
  proof cases
    case 1
    with step reach [THEN conjunct1] show ?thesis by (simp add: subset_eq)
  next
    case 2
    with assms(5) have v1: "valid_key sf locs ''logistics_centers''"
      by (simp add: required_keys_def)
    from reach [THEN conjunct2, THEN conjunct1, THEN mp, OF v1] step 2 show ?thesis
      by (simp add: subset_eq)
  next
    case 3
    with assms(5) have v1: "valid_key sf locs ''logistics_centers''"
      and v2: "valid_key sf locs ''sales_outlets''"
      by (simp_all add: required_keys_def)
    from reach [THEN conjunct2, THEN conjunct2, THEN mp, THEN mp, OF v1 v2] step 3 show ?thesis
      by (simp add: subset_eq)
  qed
qed

section \<open>Properties of the saver\<close>

lemma save_write_failure_caught:
  assumes "truthy generated_locations" and "makedirs_raises os output_dir = None"
    and "data_to_save os generated_locations = Inr doc"
    and "write_raises os (os_path_join output_dir (''locations_'' @ strftime_now os @ ''.json'')) = Some (e, left)"
  shows "\<exists>files'. save_locations_json os files generated_locations output_dir =
           (files', [(ERROR, ErrorSaving (snd e))], Returned None)"
  using assms by (simp add: save_locations_json_def)

lemma save_never_raises_after_makedirs:
  assumes "makedirs_raises os output_dir = None"
  shows "\<exists>files' lg r. save_locations_json os files generated_locations output_dir =
           (files', lg, Returned r)"
  using assms
  by (auto simp: save_locations_json_def Let_def split: sum.splits option.splits)

lemma save_returns_path:
  assumes "save_locations_json os files gl output_dir = (files', lg, Returned (Some p))"
  obtains doc where "data_to_save os gl = Inr doc" "files' p = Inr doc"
proof -
  let ?fp = "os_path_join output_dir (''locations_'' @ strftime_now os @ ''.json'')"
  from assms have t: "truthy gl"
    by (cases "truthy gl") (simp_all add: save_locations_json_def)
  from assms t have m: "makedirs_raises os output_dir = None"
    by (cases "makedirs_raises os output_dir") (simp_all add: save_locations_json_def)
  from assms t m obtain doc where doc: "data_to_save os gl = Inr doc"
    by (cases "data_to_save os gl") (simp_all add: save_locations_json_def)
  from assms t m doc have w: "write_raises os ?fp = None"
    by (cases "write_raises os ?fp") (auto simp: save_locations_json_def)
  from assms t m doc w have "files' p = Inr doc"
    by (auto simp: save_locations_json_def Let_def)
  with doc that show ?thesis by simp
qed

lemma data_to_save_Inr:
  assumes "data_to_save os gl = Inr doc"
  obtains v1 n1 v2 n2 v3 n3 where
    "py_get gl ''logistics_centers'' (JList []) = Inr v1" "py_len v1 = Inr n1"
    "py_get gl ''sales_outlets'' (JList []) = Inr v2" "py_len v2 = Inr n2"
    "py_get gl ''customers'' (JList []) = Inr v3" "py_len v3 = Inr n3"
    "doc = JDict [(''metadata'',
                   JDict [(''timestamp'', JStr (isoformat_now os)),
                          (''num_logistics_centers'', JInt (int n1)),
                          (''num_sales_outlets'', JInt (int n2)),
                          (''num_customers'', JInt (int n3))]),
                  (''locations'', gl)]"
proof -
  note doc = assms
  from doc obtain v1 where g1: "py_get gl ''logistics_centers'' (JList []) = Inr v1"
    by (cases "py_get gl ''logistics_centers'' (JList [])") (simp_all add: data_to_save_def)
  from doc g1 obtain n1 where l1: "py_len v1 = Inr n1"
    by (cases "py_len v1") (simp_all add: data_to_save_def)
  from doc g1 l1 obtain v2 where g2: "py_get gl ''sales_outlets'' (JList []) = Inr v2"
    by (cases "py_get gl ''sales_outlets'' (JList [])") (simp_all add: data_to_save_def)
  from doc g1 l1 g2 obtain n2 where l2: "py_len v2 = Inr n2"
    by (cases "py_len v2") (simp_all add: data_to_save_def)
  from doc g1 l1 g2 l2 obtain v3 where g3: "py_get gl ''customers'' (JList []) = Inr v3"
    by (cases "py_get gl ''customers'' (JList [])") (simp_all add: data_to_save_def)
  from doc g1 l1 g2 l2 g3 obtain n3 where l3: "py_len v3 = Inr n3"
    by (cases "py_len v3") (simp_all add: data_to_save_def)
  from doc g1 l1 g2 l2 g3 l3 have
    "doc = JDict [(''metadata'',
                   JDict [(''timestamp'', JStr (isoformat_now os)),
                          (''num_logistics_centers'', JInt (int n1)),
                          (''num_sales_outlets'', JInt (int n2)),
                          (''num_customers'', JInt (int n3))]),
                  (''locations'', gl)]"
    by (simp add: data_to_save_def)
  with g1 l1 g2 l2 g3 l3 that show ?thesis by blast
qed

section \<open>The claims\<close>

text \<open>
  C1. A failure of directory creation is not caught: the call of \<open>os.makedirs\<close> stands
  before the \<open>try\<close> statement, so when it raises, for a truthy argument, the exception
  reaches the caller, nothing is logged and no value is returned. (A failure of the file
  write is caught: see \<open>save_write_failure_caught\<close>.)
\<close>

theorem save_makedirs_failure_propagates:
  assumes "truthy generated_locations" and "makedirs_raises os output_dir = Some e"
  shows "save_locations_json os files generated_locations output_dir = (files, [], Raised e)"
  using assms by (simp add: save_locations_json_def)

theorem save_makedirs_failure_propagates_witness:
  "truthy one_center
   \<and> makedirs_raises blocked_os ''out'' = Some (OSError, Builtin ''Permission denied'')
   \<and> save_locations_json blocked_os (single_file ''a.json'' JNull) one_center ''out'' =
       (single_file ''a.json'' JNull, [], Raised (OSError, Builtin ''Permission denied''))"
  using save_makedirs_failure_propagates [of one_center blocked_os "''out''"
      "(OSError, Builtin ''Permission denied'')" "single_file ''a.json'' JNull"]
  by (simp add: one_center_def blocked_os_def)

text \<open>
  C2. Round trip: when a load returns \<open>r\<close> and saving \<open>r\<close> returns a path, loading
  that path returns \<open>r\<close> again, the same coordinates under the same keys in the same
  order. A written file holds its document: serialisation and parsing are not modelled.
\<close>

theorem save_then_load_round_trip:
  assumes "load_locations_from_json sf files filepath = (lg, Inr r)"
    and "save_locations_json os files1 r output_dir = (files2, lg', Returned (Some p))"
  shows "snd (load_locations_from_json sf' files2 p) = Inr r"
proof -
  from assms(1) obtain data where
    v: "validate_document sf [(INFO, LoadingFile filepath)] data = (lg, Inr r)"
    by (rule load_Inr_document)
  from validate_document_Inr_shape [OF v] obtain lcs sos cus where
    r: "r = JDict [(''logistics_centers'', JList lcs), (''sales_outlets'', JList sos),
                   (''customers'', JList cus)]"
    and c: "list_all is_coordinate lcs" "list_all is_coordinate sos" "list_all is_coordinate cus"
    and ne: "lcs \<noteq> []"
    by blast
  from assms(2) obtain doc where doc: "data_to_save os r = Inr doc" and written: "files2 p = Inr doc"
    by (rule save_returns_path)
  from doc obtain meta where env: "doc = JDict [(''metadata'', meta), (''locations'', r)]"
    by (rule data_to_save_Inr) blast
  have loc: "map_of [(''metadata'', meta), (''locations'', r)] ''locations'' =
               Some (JDict [(''logistics_centers'', JList lcs), (''sales_outlets'', JList sos),
                            (''customers'', JList cus)])"
    by (simp add: r)
  from validate_document_normalised [OF loc c ne, of sf' "[(INFO, LoadingFile p)]"]
  show ?thesis
    by (simp add: load_locations_from_json_def written env r)
qed

theorem save_then_load_round_trip_witness:
  "load_locations_from_json no_literals (single_file ''a.json'' doc_mixed) ''a.json'' =
     ([(INFO, LoadingFile ''a.json''), (INFO, LoadedSummary 2 0 1)], Inr loaded_mixed)
   \<and> save_locations_json quiet_os (single_file ''a.json'' doc_mixed) loaded_mixed ''out'' =
       ((single_file ''a.json'' doc_mixed)(''out/locations_20240101_120000.json'' := Inr saved_mixed),
        [(INFO, SavedTo ''out/locations_20240101_120000.json'')],
        Returned (Some ''out/locations_20240101_120000.json''))
   \<and> snd (load_locations_from_json no_literals
            ((single_file ''a.json'' doc_mixed)(''out/locations_20240101_120000.json'' := Inr saved_mixed))
            ''out/locations_20240101_120000.json'') = Inr loaded_mixed"
proof -
  have loaded: "load_locations_from_json no_literals (single_file ''a.json'' doc_mixed) ''a.json'' =
     ([(INFO, LoadingFile ''a.json''), (INFO, LoadedSummary 2 0 1)], Inr loaded_mixed)"
    by code_simp
  have saved: "save_locations_json quiet_os (single_file ''a.json'' doc_mixed) loaded_mixed ''out'' =
       ((single_file ''a.json'' doc_mixed)(''out/locations_20240101_120000.json'' := Inr saved_mixed),
        [(INFO, SavedTo ''out/locations_20240101_120000.json'')],
        Returned (Some ''out/locations_20240101_120000.json''))"
    by (simp add: save_locations_json_def data_to_save_def quiet_os_def loaded_mixed_def
          saved_mixed_def os_path_join_def Let_def)
  show ?thesis
    by (rule conjI [OF loaded conjI [OF saved save_then_load_round_trip [OF loaded saved]]])
qed

text \<open>
  C3. When \<open>load_locations_from_json\<close> returns, the file holds a dictionary with a
  dictionary \<open>locations\<close>, and the result binds exactly \<open>logistics_centers\<close>,
  \<open>sales_outlets\<close> and \<open>customers\<close>, each to a list of two-float pairs with the
  latitude in \<open>[-90, 90]\<close> and the longitude in \<open>[-180, 180]\<close>; each list is the
  source list converted element by element in the same order (empty for an absent key), and
  the list of logistics centers is not empty.
\<close>

theorem load_success_postcondition:
  assumes "load_locations_from_json sf files filepath = (lg, Inr r)"
  shows "\<exists>doc locs lcs sos cus.
           files filepath = Inr (JDict doc) \<and> map_of doc ''locations'' = Some (JDict locs)
         \<and> r = JDict [(''logistics_centers'', JList lcs), (''sales_outlets'', JList sos),
                      (''customers'', JList cus)]
         \<and> list_all is_coordinate lcs \<and> list_all is_coordinate sos \<and> list_all is_coordinate cus
         \<and> source_order sf locs ''logistics_centers'' lcs
         \<and> source_order sf locs ''sales_outlets'' sos
         \<and> source_order sf locs ''customers'' cus
         \<and> lcs \<noteq> []"
proof -
  from assms obtain data where data: "files filepath = Inr data"
    and v: "validate_document sf [(INFO, LoadingFile filepath)] data = (lg, Inr r)"
    by (rule load_Inr_document)
  from validate_document_Inr_shape [OF v] data show ?thesis
    by simp
qed

theorem load_success_postcondition_witness:
  "load_locations_from_json no_literals (single_file ''a.json'' doc_mixed) ''a.json'' =
     ([(INFO, LoadingFile ''a.json''), (INFO, LoadedSummary 2 0 1)], Inr loaded_mixed)
   \<and> (\<exists>doc locs lcs sos cus.
           single_file ''a.json'' doc_mixed ''a.json'' = Inr (JDict doc)
         \<and> map_of doc ''locations'' = Some (JDict locs)
         \<and> loaded_mixed = JDict [(''logistics_centers'', JList lcs), (''sales_outlets'', JList sos),
                      (''customers'', JList cus)]
         \<and> list_all is_coordinate lcs \<and> list_all is_coordinate sos \<and> list_all is_coordinate cus
         \<and> source_order no_literals locs ''logistics_centers'' lcs
         \<and> source_order no_literals locs ''sales_outlets'' sos
         \<and> source_order no_literals locs ''customers'' cus
         \<and> lcs \<noteq> [])"
proof -
  have loaded: "load_locations_from_json no_literals (single_file ''a.json'' doc_mixed) ''a.json'' =
     ([(INFO, LoadingFile ''a.json''), (INFO, LoadedSummary 2 0 1)], Inr loaded_mixed)"
    by code_simp
  show ?thesis
    by (rule conjI [OF loaded load_success_postcondition [OF loaded]])
qed




text \<open>
  C5. For a falsy \<open>generated_locations\<close> (\<open>None\<close>, an empty dictionary, or any other
  object whose truth value is false), \<open>save_locations_json\<close> logs one warning, returns
  \<open>None\<close> and leaves the file system as it was.
\<close>

theorem save_nothing_to_save:
  assumes "\<not> truthy generated_locations"
  shows "save_locations_json os files generated_locations output_dir =
           (files, [(WARNING, NoLocationsToSave)], Returned None)"
  using assms by (simp add: save_locations_json_def)

theorem save_nothing_to_save_witness:
  "\<not> truthy (JDict []) \<and> \<not> truthy JNull
   \<and> save_locations_json quiet_os (single_file ''a.json'' JNull) (JDict []) ''out'' =
       (single_file ''a.json'' JNull, [(WARNING, NoLocationsToSave)], Returned None)
   \<and> save_locations_json quiet_os (single_file ''a.json'' JNull) JNull ''out'' =
       (single_file ''a.json'' JNull, [(WARNING, NoLocationsToSave)], Returned None)"
  using save_nothing_to_save [of "JDict []" quiet_os "single_file ''a.json'' JNull" "''out''"]
    save_nothing_to_save [of JNull quiet_os "single_file ''a.json'' JNull" "''out''"]
  by simp

text \<open>
  C6, for a key that the loader reaches. For a required key absent from \<open>locations\<close>,
  the loop body stores the empty list and logs one warning, raising nothing; the warning is
  in the log of the load whenever the required keys before the absent one validate. When
  the three keys validate (an absent key does) and \<open>logistics_centers\<close> is a non-empty
  list, the load returns a result that binds the absent key to the empty list. A load that
  fails does so on a key that does not validate or on the emptiness check. When the absent
  key is \<open>logistics_centers\<close> the load always fails, with "At least one logistics center
  is required" once \<open>sales_outlets\<close> and \<open>customers\<close> validate.
\<close>

theorem missing_key_substituted:
  assumes "files filepath = Inr (JDict doc)" and "map_of doc ''locations'' = Some (JDict locs)"
    and "key \<in> set required_keys" and "map_of locs key = None"
  shows "process_key sf locs key = ([(WARNING, MissingKey key)], Inr (JList []))
       \<and> (valid_key sf locs ''logistics_centers'' \<and> valid_key sf locs ''sales_outlets''
            \<and> valid_key sf locs ''customers''
            \<and> (\<exists>x xs. map_of locs ''logistics_centers'' = Some (JList (x # xs))) \<longrightarrow>
           (\<exists>lg r. load_locations_from_json sf files filepath = (lg, Inr (JDict r))
                  \<and> map_of r key = Some (JList [])
                  \<and> (WARNING, MissingKey key) \<in> set lg))
       \<and> (\<forall>lg e. load_locations_from_json sf files filepath = (lg, Inl e) \<longrightarrow>
             \<not> valid_key sf locs ''logistics_centers'' \<or> \<not> valid_key sf locs ''sales_outlets''
             \<or> \<not> valid_key sf locs ''customers'' \<or> e = (ValueError, NeedLogisticsCenter))
       \<and> ((\<forall>k \<in> set (takeWhile (\<lambda>k. k \<noteq> key) required_keys). valid_key sf locs k) \<longrightarrow>
            (WARNING, MissingKey key) \<in> set (fst (load_locations_from_json sf files filepath)))
       \<and> (key = ''logistics_centers'' \<longrightarrow>
            (\<exists>e. snd (load_locations_from_json sf files filepath) = Inl e)
          \<and> (valid_key sf locs ''sales_outlets'' \<and> valid_key sf locs ''customers'' \<longrightarrow>
               snd (load_locations_from_json sf files filepath) = Inl (ValueError, NeedLogisticsCenter)))"
proof -
  note step = process_key_missing [OF assms(4), of sf]
  have success: "\<exists>lg r. load_locations_from_json sf files filepath = (lg, Inr (JDict r))
                  \<and> map_of r key = Some (JList [])
                  \<and> (WARNING, MissingKey key) \<in> set lg"
    if v: "valid_key sf locs ''logistics_centers''" "valid_key sf locs ''sales_outlets''"
      "valid_key sf locs ''customers''"
      and c: "map_of locs ''logistics_centers'' = Some (JList (x # xs))" for x xs
  proof -
    from assms(1,2) v obtain l1 l2 l3 lcs sos cus where
      p: "process_key sf locs ''logistics_centers'' = (l1, Inr (JList lcs))"
         "process_key sf locs ''sales_outlets'' = (l2, Inr (JList sos))"
         "process_key sf locs ''customers'' = (l3, Inr (JList cus))"
      and o: "source_order sf locs ''logistics_centers'' lcs"
      and l: "load_locations_from_json sf files filepath =
       ([(INFO, LoadingFile filepath)] @ l1 @ l2 @ l3 @
          [(INFO, LoadedSummary (length lcs) (length sos) (length cus))],
        if lcs = [] then Inl (ValueError, NeedLogisticsCenter)
        else Inr (JDict [(''logistics_centers'', JList lcs), (''sales_outlets'', JList sos),
                         (''customers'', JList cus)]))"
      by (rule load_all_valid [of files filepath doc locs sf])
    from o c have "map (float_pair sf) (x # xs) = map Some lcs"
      by (simp add: source_order_def)
    then have "length (x # xs) = length lcs"
      by (rule map_eq_imp_length_eq)
    then have ne: "lcs \<noteq> []" by auto
    from assms(3) have "key = ''logistics_centers'' \<or> key = ''sales_outlets'' \<or> key = ''customers''"
      by (simp add: required_keys_def)
    moreover from c assms(4) have "key \<noteq> ''logistics_centers''"
      by (cases "key = ''logistics_centers''") simp_all
    ultimately have "key = ''sales_outlets'' \<or> key = ''customers''"
      by simp
    then show ?thesis
    proof
      assume k: "key = ''sales_outlets''"
      with step p(2) have "l2 = [(WARNING, MissingKey key)]" "sos = []" by simp_all
      with l ne k show ?thesis by simp
    next
      assume k: "key = ''customers''"
      with step p(3) have "l3 = [(WARNING, MissingKey key)]" "cus = []" by simp_all
      with l ne k show ?thesis by simp
    qed
  qed
  have failure: "\<not> valid_key sf locs ''logistics_centers'' \<or> \<not> valid_key sf locs ''sales_outlets''
             \<or> \<not> valid_key sf locs ''customers'' \<or> e = (ValueError, NeedLogisticsCenter)"
    if f: "load_locations_from_json sf files filepath = (lg, Inl e)" for lg e
  proof (cases "valid_key sf locs ''logistics_centers'' \<and> valid_key sf locs ''sales_outlets''
                \<and> valid_key sf locs ''customers''")
    case False
    then show ?thesis by blast
  next
    case True
    then have v: "valid_key sf locs ''logistics_centers''" "valid_key sf locs ''sales_outlets''"
      "valid_key sf locs ''customers''" by simp_all
    from assms(1,2) v obtain l1 l2 l3 lcs sos cus where
      "load_locations_from_json sf files filepath =
       ([(INFO, LoadingFile filepath)] @ l1 @ l2 @ l3 @
          [(INFO, LoadedSummary (length lcs) (length sos) (length cus))],
        if lcs = [] then Inl (ValueError, NeedLogisticsCenter)
        else Inr (JDict [(''logistics_centers'', JList lcs), (''sales_outlets'', JList sos),
                         (''customers'', JList cus)]))"
      by (rule load_all_valid [of files filepath doc locs sf])
    with f have "e = (ValueError, NeedLogisticsCenter)"
      by (simp split: if_splits)
    then show ?thesis by simp
  qed
  have reached: "(WARNING, MissingKey key) \<in> set (fst (load_locations_from_json sf files filepath))"
    if "\<forall>k \<in> set (takeWhile (\<lambda>k. k \<noteq> key) required_keys). valid_key sf locs k"
    by (rule missing_key_warning_logged [of files filepath doc locs key sf, OF assms that])
  have centers: "(\<exists>e. snd (load_locations_from_json sf files filepath) = Inl e)
          \<and> (valid_key sf locs ''sales_outlets'' \<and> valid_key sf locs ''customers'' \<longrightarrow>
               snd (load_locations_from_json sf files filepath) = Inl (ValueError, NeedLogisticsCenter))"
    if k: "key = ''logistics_centers''"
  proof -
    from step k have p1: "process_key sf locs ''logistics_centers'' =
                            ([(WARNING, MissingKey ''logistics_centers'')], Inr (JList []))"
      by simp
    have "\<exists>e. snd (load_locations_from_json sf files filepath) = Inl e"
      by (rule no_centers_fails [of files filepath doc locs sf, OF assms(1,2) p1])
    moreover have "snd (load_locations_from_json sf files filepath) = Inl (ValueError, NeedLogisticsCenter)"
      if "valid_key sf locs ''sales_outlets''" "valid_key sf locs ''customers''"
      by (rule no_centers_emptiness [of files filepath doc locs sf, OF assms(1,2) p1 that])
    ultimately show ?thesis by blast
  qed
  have first: "process_key sf locs key = ([(WARNING, MissingKey key)], Inr (JList []))"
    by (rule step)
  have second: "valid_key sf locs ''logistics_centers'' \<and> valid_key sf locs ''sales_outlets''
            \<and> valid_key sf locs ''customers''
            \<and> (\<exists>x xs. map_of locs ''logistics_centers'' = Some (JList (x # xs))) \<longrightarrow>
           (\<exists>lg r. load_locations_from_json sf files filepath = (lg, Inr (JDict r))
                  \<and> map_of r key = Some (JList [])
                  \<and> (WARNING, MissingKey key) \<in> set lg)"
  proof
    assume "valid_key sf locs ''logistics_centers'' \<and> valid_key sf locs ''sales_outlets''
            \<and> valid_key sf locs ''customers''
            \<and> (\<exists>x xs. map_of locs ''logistics_centers'' = Some (JList (x # xs)))"
    then obtain x xs where "valid_key sf locs ''logistics_centers''"
      "valid_key sf locs ''sales_outlets''" "valid_key sf locs ''customers''"
      "map_of locs ''logistics_centers'' = Some (JList (x # xs))"
      by (elim conjE exE)
    then show "\<exists>lg r. load_locations_from_json sf files filepath = (lg, Inr (JDict r))
                  \<and> map_of r key = Some (JList [])
                  \<and> (WARNING, MissingKey key) \<in> set lg"
      by (rule success)
  qed
  have third: "\<forall>lg e. load_locations_from_json sf files filepath = (lg, Inl e) \<longrightarrow>
             \<not> valid_key sf locs ''logistics_centers'' \<or> \<not> valid_key sf locs ''sales_outlets''
             \<or> \<not> valid_key sf locs ''customers'' \<or> e = (ValueError, NeedLogisticsCenter)"
  proof (intro allI impI)
    fix lg e
    assume "load_locations_from_json sf files filepath = (lg, Inl e)"
    then show "\<not> valid_key sf locs ''logistics_centers'' \<or> \<not> valid_key sf locs ''sales_outlets''
             \<or> \<not> valid_key sf locs ''customers'' \<or> e = (ValueError, NeedLogisticsCenter)"
      by (rule failure)
  qed
  have fourth: "(\<forall>k \<in> set (takeWhile (\<lambda>k. k \<noteq> key) required_keys). valid_key sf locs k) \<longrightarrow>
            (WARNING, MissingKey key) \<in> set (fst (load_locations_from_json sf files filepath))"
    by (rule impI) (rule reached)
  have fifth: "key = ''logistics_centers'' \<longrightarrow>
            (\<exists>e. snd (load_locations_from_json sf files filepath) = Inl e)
          \<and> (valid_key sf locs ''sales_outlets'' \<and> valid_key sf locs ''customers'' \<longrightarrow>
               snd (load_locations_from_json sf files filepath) = Inl (ValueError, NeedLogisticsCenter))"
    by (rule impI) (rule centers)
  show ?thesis
    by (rule conjI [OF first conjI [OF second conjI [OF third conjI [OF fourth fifth]]]])
qed

theorem missing_key_substituted_witness:
  "single_file ''n.json'' doc_no_outlets ''n.json'' = Inr (JDict [(''locations'', JDict locs_no_outlets)])
   \<and> ''sales_outlets'' \<in> set required_keys
   \<and> map_of locs_no_outlets ''sales_outlets'' = None
   \<and> process_key no_literals locs_no_outlets ''sales_outlets'' =
        ([(WARNING, MissingKey ''sales_outlets'')], Inr (JList []))
   \<and> (\<exists>lg r. load_locations_from_json no_literals (single_file ''n.json'' doc_no_outlets) ''n.json'' =
                 (lg, Inr (JDict r))
             \<and> map_of r ''sales_outlets'' = Some (JList [])
             \<and> (WARNING, MissingKey ''sales_outlets'') \<in> set lg)
   \<and> single_file ''c.json'' doc_no_centers_key ''c.json'' =
        Inr (JDict [(''locations'', JDict locs_no_centers_key)])
   \<and> map_of locs_no_centers_key ''logistics_centers'' = None
   \<and> valid_key no_literals locs_no_centers_key ''sales_outlets''
   \<and> valid_key no_literals locs_no_centers_key ''customers''
   \<and> (WARNING, MissingKey ''logistics_centers'')
        \<in> set (fst (load_locations_from_json no_literals (single_file ''c.json'' doc_no_centers_key) ''c.json''))
   \<and> snd (load_locations_from_json no_literals (single_file ''c.json'' doc_no_centers_key) ''c.json'') =
        Inl (ValueError, NeedLogisticsCenter)"
proof -
  have f: "single_file ''n.json'' doc_no_outlets ''n.json'' =
             Inr (JDict [(''locations'', JDict locs_no_outlets)])"
    by (simp add: single_file_def doc_no_outlets_def)
  have l: "map_of [(''locations'', JDict locs_no_outlets)] ''locations'' = Some (JDict locs_no_outlets)"
    by simp
  have k: "''sales_outlets'' \<in> set required_keys"
    by (simp add: required_keys_def)
  have m: "map_of locs_no_outlets ''sales_outlets'' = None"
    by (simp add: locs_no_outlets_def)
  have v1: "valid_key no_literals locs_no_outlets ''logistics_centers''" by code_simp
  have v2: "valid_key no_literals locs_no_outlets ''sales_outlets''" by code_simp
  have v3: "valid_key no_literals locs_no_outlets ''customers''" by code_simp
  have c: "\<exists>x xs. map_of locs_no_outlets ''logistics_centers'' = Some (JList (x # xs))"
    by (simp add: locs_no_outlets_def)
  note t = missing_key_substituted
    [of "single_file ''n.json'' doc_no_outlets" "''n.json''" _ locs_no_outlets "''sales_outlets''"
        no_literals, OF f l k m]
  note r1 = t [THEN conjunct1]
  note r2 = t [THEN conjunct2, THEN conjunct1, THEN mp, OF conjI [OF v1 conjI [OF v2 conjI [OF v3 c]]]]
  have f': "single_file ''c.json'' doc_no_centers_key ''c.json'' =
             Inr (JDict [(''locations'', JDict locs_no_centers_key)])"
    by (simp add: single_file_def doc_no_centers_key_def)
  have l': "map_of [(''locations'', JDict locs_no_centers_key)] ''locations'' =
             Some (JDict locs_no_centers_key)"
    by simp
  have k': "''logistics_centers'' \<in> set required_keys"
    by (simp add: required_keys_def)
  have m': "map_of locs_no_centers_key ''logistics_centers'' = None"
    by (simp add: locs_no_centers_key_def)
  have w2: "valid_key no_literals locs_no_centers_key ''sales_outlets''" by code_simp
  have w3: "valid_key no_literals locs_no_centers_key ''customers''" by code_simp
  have before: "\<forall>k \<in> set (takeWhile (\<lambda>k. k \<noteq> ''logistics_centers'') required_keys).
                  valid_key no_literals locs_no_centers_key k"
    by (simp add: required_keys_def)
  note t' = missing_key_substituted
    [of "single_file ''c.json'' doc_no_centers_key" "''c.json''" _ locs_no_centers_key
        "''logistics_centers''" no_literals, OF f' l' k' m']
  note r4 = t' [THEN conjunct2, THEN conjunct2, THEN conjunct2, THEN conjunct1, THEN mp, OF before]
  note r5 = t' [THEN conjunct2, THEN conjunct2, THEN conjunct2, THEN conjunct2, THEN mp, OF refl,
                THEN conjunct2, THEN mp, OF conjI [OF w2 w3]]
  show ?thesis
    by (intro conjI) (rule f k m r1 r2 f' m' w2 w3 r4 r5)+
qed

text \<open>
  C6, for every absent key of every file, does not hold. A file that omits only
  \<open>logistics_centers\<close> is warned about and then fails, because the substituted list is
  empty; and a file whose \<open>logistics_centers\<close> is a string fails before the two absent
  keys are reached, so nothing is substituted and no warning is logged for them.
\<close>

theorem missing_key_not_always_substituted:
  "load_locations_from_json no_literals (single_file ''c.json'' doc_no_centers_key) ''c.json'' =
     ([(INFO, LoadingFile ''c.json''), (WARNING, MissingKey ''logistics_centers''),
       (INFO, LoadedSummary 0 0 0)],
      Inl (ValueError, NeedLogisticsCenter))
   \<and> load_locations_from_json no_literals (single_file ''d.json'' doc_bad_centers) ''d.json'' =
       ([(INFO, LoadingFile ''d.json'')], Inl (ValueError, MustBeList ''logistics_centers''))"
proof (rule conjI)
  show "load_locations_from_json no_literals (single_file ''c.json'' doc_no_centers_key) ''c.json'' =
     ([(INFO, LoadingFile ''c.json''), (WARNING, MissingKey ''logistics_centers''),
       (INFO, LoadedSummary 0 0 0)],
      Inl (ValueError, NeedLogisticsCenter))"
    by code_simp
  show "load_locations_from_json no_literals (single_file ''d.json'' doc_bad_centers) ''d.json'' =
       ([(INFO, LoadingFile ''d.json'')], Inl (ValueError, MustBeList ''logistics_centers''))"
    by code_simp
qed

text \<open>
  C7. \<open>validate_locations_structure\<close> never raises, and returns true exactly when the
  candidate is a dictionary in which each of \<open>logistics_centers\<close>, \<open>sales_outlets\<close> and
  \<open>customers\<close> is present and bound to a list, whatever the lists contain.
\<close>

theorem validate_locations_structure_iff:
  "validate_locations_structure v =
     Inr (\<exists>d. v = JDict d \<and>
            (\<forall>k \<in> {''logistics_centers'', ''sales_outlets'', ''customers''}.
               \<exists>xs. map_of d k = Some (JList xs)))"
proof (cases v)
  case (JDict d)
  have list: "is_list w = (\<exists>xs. w = JList xs)" for w
    by (cases w) simp_all
  show ?thesis
    unfolding JDict validate_locations_structure_def required_keys_def
    by (auto simp: dict_contains_def dict_getitem_def list split: option.splits)
qed (simp_all add: validate_locations_structure_def)

theorem validate_locations_structure_iff_witness:
  "validate_locations_structure
     (JDict [(''logistics_centers'', JStr ''not-a-list''), (''sales_outlets'', JList []),
             (''customers'', JList [])]) = Inr False
   \<and> validate_locations_structure
     (JDict [(''logistics_centers'', JList []), (''sales_outlets'', JList []),
             (''customers'', JList [])]) = Inr True
   \<and> validate_locations_structure
     (JDict [(''logistics_centers'', JList [JStr ''anything'']), (''sales_outlets'', JList []),
             (''customers'', JList [JList [JInt 500]])]) = Inr True"
  using
    validate_locations_structure_iff [of "JDict [(''logistics_centers'', JStr ''not-a-list''),
      (''sales_outlets'', JList []), (''customers'', JList [])]"]
    validate_locations_structure_iff [of "JDict [(''logistics_centers'', JList []),
      (''sales_outlets'', JList []), (''customers'', JList [])]"]
    validate_locations_structure_iff [of "JDict [(''logistics_centers'', JList [JStr ''anything'']),
      (''sales_outlets'', JList []), (''customers'', JList [JList [JInt 500]])]"]
  by simp

text \<open>
  C8, for the first invalid item of a file. Let element \<open>i\<close> of the list under a
  required key be a two-element list whose components both convert with \<open>float\<close>, to a
  latitude outside \<open>[-90, 90]\<close> or a longitude outside \<open>[-180, 180]\<close>, and let
  everything validated before it pass: the required keys before this one, and the elements
  before \<open>i\<close>. Then the load fails with a ValueError whose message states the key, the
  index and the offending value: the latitude when it is out of range, the longitude
  otherwise.
\<close>

theorem out_of_range_reported:
  assumes "files filepath = Inr (JDict doc)" and "map_of doc ''locations'' = Some (JDict locs)"
    and "key \<in> set required_keys"
    and "\<forall>k \<in> set (takeWhile (\<lambda>k. k \<noteq> key) required_keys). valid_key sf locs k"
    and "map_of locs key = Some (JList xs)" and "i < length xs"
    and "list_all (valid_element sf) (take i xs)"
    and "xs ! i = JList [a, b]"
    and "py_float sf a = Inr lat" and "py_float sf b = Inr lon"
    and "\<not> in_lat lat \<or> \<not> in_lon lon"
  shows "snd (load_locations_from_json sf files filepath) =
           Inl (ValueError, InvalidCoordinateValues key i
                  (if \<not> in_lat lat then InvalidLatitude lat key i
                   else InvalidLongitude lon key i))
       \<and> states (InvalidCoordinateValues key i
                  (if \<not> in_lat lat then InvalidLatitude lat key i
                   else InvalidLongitude lon key i))
            (if \<not> in_lat lat then lat else lon) key i"
proof -
  let ?e = "(ValueError, InvalidCoordinateValues key i
                  (if \<not> in_lat lat then InvalidLatitude lat key i
                   else InvalidLongitude lon key i))"
  note bad = process_key_out_of_range [OF assms(5-11)]
  note ld = load_document [of files filepath _ sf, OF assms(1)]
  from assms(3) have "key = ''logistics_centers'' \<or> key = ''sales_outlets'' \<or> key = ''customers''"
    by (simp add: required_keys_def)
  then consider "key = ''logistics_centers''" | "key = ''sales_outlets''"
    | "key = ''customers''"
    by (elim disjE)
  then have "snd (load_locations_from_json sf files filepath) = Inl ?e"
  proof cases
    case 1
    with bad have "process_key sf locs ''logistics_centers'' = ([], Inl ?e)" by simp
    from validate_document_err1 [OF assms(2) this] show ?thesis
      by (simp add: ld)
  next
    case 2
    with assms(4) have "valid_key sf locs ''logistics_centers''"
      by (simp add: required_keys_def)
    then obtain l1 lcs where p1: "process_key sf locs ''logistics_centers'' = (l1, Inr (JList lcs))"
      by (rule process_key_valid)
    from 2 bad have "process_key sf locs ''sales_outlets'' = ([], Inl ?e)" by simp
    from validate_document_err2 [OF assms(2) p1 this] show ?thesis
      by (simp add: ld)
  next
    case 3
    with assms(4) have "valid_key sf locs ''logistics_centers''" "valid_key sf locs ''sales_outlets''"
      by (simp_all add: required_keys_def)
    then have v1: "valid_key sf locs ''logistics_centers''" and v2: "valid_key sf locs ''sales_outlets''"
      by simp_all
    from v1 obtain l1 lcs where p1: "process_key sf locs ''logistics_centers'' = (l1, Inr (JList lcs))"
      by (rule process_key_valid)
    from v2 obtain l2 sos where p2: "process_key sf locs ''sales_outlets'' = (l2, Inr (JList sos))"
      by (rule process_key_valid)
    from 3 bad have "process_key sf locs ''customers'' = ([], Inl ?e)" by simp
    from validate_document_err3 [OF assms(2) p1 p2 this] show ?thesis
      by (simp add: ld)
  qed
  moreover have "states (InvalidCoordinateValues key i
                  (if \<not> in_lat lat then InvalidLatitude lat key i
                   else InvalidLongitude lon key i))
            (if \<not> in_lat lat then lat else lon) key i"
    by simp
  ultimately show ?thesis by (rule conjI)
qed

theorem out_of_range_reported_witness:
  "single_file ''r.json'' doc_out_of_range ''r.json'' =
     Inr (JDict [(''locations'', JDict locs_out_of_range)])
   \<and> map_of locs_out_of_range ''sales_outlets'' =
       Some (JList [JList [JInt 10, JInt 10], JList [JInt 91, JInt 0]])
   \<and> valid_key no_literals locs_out_of_range ''logistics_centers''
   \<and> valid_element no_literals (JList [JInt 10, JInt 10])
   \<and> py_float no_literals (JInt 91) = Inr (Fin 91)
   \<and> py_float no_literals (JInt 0) = Inr (Fin 0)
   \<and> \<not> in_lat (Fin 91)
   \<and> snd (load_locations_from_json no_literals (single_file ''r.json'' doc_out_of_range) ''r.json'') =
        Inl (ValueError, InvalidCoordinateValues ''sales_outlets'' 1
               (InvalidLatitude (Fin 91) ''sales_outlets'' 1))
   \<and> states (InvalidCoordinateValues ''sales_outlets'' 1 (InvalidLatitude (Fin 91) ''sales_outlets'' 1))
        (Fin 91) ''sales_outlets'' 1"
proof -
  let ?xs = "[JList [JInt 10, JInt 10], JList [JInt 91, JInt 0]]"
  have f: "single_file ''r.json'' doc_out_of_range ''r.json'' =
             Inr (JDict [(''locations'', JDict locs_out_of_range)])"
    by (simp add: single_file_def doc_out_of_range_def)
  have l: "map_of [(''locations'', JDict locs_out_of_range)] ''locations'' =
             Some (JDict locs_out_of_range)"
    by simp
  have k: "''sales_outlets'' \<in> set required_keys"
    by (simp add: required_keys_def)
  have v1: "valid_key no_literals locs_out_of_range ''logistics_centers''" by code_simp
  then have before: "\<forall>k \<in> set (takeWhile (\<lambda>k. k \<noteq> ''sales_outlets'') required_keys).
                       valid_key no_literals locs_out_of_range k"
    by (simp add: required_keys_def)
  have m: "map_of locs_out_of_range ''sales_outlets'' = Some (JList ?xs)"
    by (simp add: locs_out_of_range_def)
  have i: "(1::nat) < length ?xs" by simp
  have e0: "valid_element no_literals (JList [JInt 10, JInt 10])" by code_simp
  then have pre: "list_all (valid_element no_literals) (take 1 ?xs)" by simp
  have at: "?xs ! 1 = JList [JInt 91, JInt 0]" by simp
  have a: "py_float no_literals (JInt 91) = Inr (Fin 91)" by code_simp
  have b: "py_float no_literals (JInt 0) = Inr (Fin 0)" by code_simp
  have out: "\<not> in_lat (Fin 91)" by simp
  then have out': "\<not> in_lat (Fin 91) \<or> \<not> in_lon (Fin 0)" by simp
  note t = out_of_range_reported
    [of "single_file ''r.json'' doc_out_of_range" "''r.json''" _ locs_out_of_range "''sales_outlets''"
        no_literals ?xs 1 "JInt 91" "JInt 0" "Fin 91" "Fin 0", OF f l k before m i pre at a b out']
  from t out have r1: "snd (load_locations_from_json no_literals
                              (single_file ''r.json'' doc_out_of_range) ''r.json'') =
        Inl (ValueError, InvalidCoordinateValues ''sales_outlets'' 1
               (InvalidLatitude (Fin 91) ''sales_outlets'' 1))"
    by simp
  from t out have r2: "states (InvalidCoordinateValues ''sales_outlets'' 1
                                 (InvalidLatitude (Fin 91) ''sales_outlets'' 1))
        (Fin 91) ''sales_outlets'' 1"
    by simp
  show ?thesis
    by (intro conjI) (rule f m v1 e0 a b out r1 r2)+
qed

text \<open>
  C8, for every file that holds an out-of-range coordinate, does not hold. A file can hold
  a coordinate with latitude 91 and fail on an earlier key, with a message that states
  neither the value nor its key and index; and a latitude that is an integer too large for
  a float leaves the loader as an OverflowError, which the handler
  \<open>except (ValueError, TypeError)\<close> does not catch.
\<close>

theorem out_of_range_not_always_reported:
  "snd (load_locations_from_json no_literals (single_file ''m.json'' doc_masked) ''m.json'') =
     Inl (ValueError, MustBeList ''sales_outlets'')
   \<and> \<not> states (MustBeList ''sales_outlets'') (Fin 91) ''customers'' 0
   \<and> snd (load_locations_from_json no_literals (single_file ''big.json'' doc_overflow) ''big.json'') =
       Inl (OverflowError, IntTooLarge)"
proof (intro conjI)
  show "snd (load_locations_from_json no_literals (single_file ''m.json'' doc_masked) ''m.json'') =
     Inl (ValueError, MustBeList ''sales_outlets'')"
    by code_simp
  show "\<not> states (MustBeList ''sales_outlets'') (Fin 91) ''customers'' 0"
    by simp
  show "snd (load_locations_from_json no_literals (single_file ''big.json'' doc_overflow) ''big.json'') =
       Inl (OverflowError, IntTooLarge)"
    by code_simp
qed

text \<open>
  C9. Whenever \<open>save_locations_json\<close> returns a path, the file at that path holds an
  envelope whose three metadata counts are the record \<open>get_location_counts\<close> returns on
  the same input: each count is 0 when the key is absent and the length of the list when the
  key is bound to a list.
\<close>

theorem saver_counts_refine_counter:
  assumes "save_locations_json os files gl output_dir = (files', lg, Returned (Some p))"
  shows "\<exists>d n1 n2 n3.
           gl = JDict d
         \<and> get_location_counts gl =
             Inr (JDict [(''num_logistics_centers'', JInt (int n1)),
                         (''num_sales_outlets'', JInt (int n2)),
                         (''num_customers'', JInt (int n3))])
         \<and> files' p =
             Inr (JDict [(''metadata'',
                          JDict [(''timestamp'', JStr (isoformat_now os)),
                                 (''num_logistics_centers'', JInt (int n1)),
                                 (''num_sales_outlets'', JInt (int n2)),
                                 (''num_customers'', JInt (int n3))]),
                         (''locations'', gl)])
         \<and> (map_of d ''logistics_centers'' = None \<longrightarrow> n1 = 0)
         \<and> (map_of d ''sales_outlets'' = None \<longrightarrow> n2 = 0)
         \<and> (map_of d ''customers'' = None \<longrightarrow> n3 = 0)
         \<and> (\<forall>xs. map_of d ''logistics_centers'' = Some (JList xs) \<longrightarrow> n1 = length xs)
         \<and> (\<forall>xs. map_of d ''sales_outlets'' = Some (JList xs) \<longrightarrow> n2 = length xs)
         \<and> (\<forall>xs. map_of d ''customers'' = Some (JList xs) \<longrightarrow> n3 = length xs)"
proof -
  let ?fp = "os_path_join output_dir (''locations_'' @ strftime_now os @ ''.json'')"
  from assms have t: "truthy gl"
    by (cases "truthy gl") (simp_all add: save_locations_json_def)
  from assms t have m: "makedirs_raises os output_dir = None"
    by (cases "makedirs_raises os output_dir") (simp_all add: save_locations_json_def)
  from assms t m obtain doc where doc: "data_to_save os gl = Inr doc"
    by (cases "data_to_save os gl") (simp_all add: save_locations_json_def)
  from assms t m doc have w: "write_raises os ?fp = None"
    by (cases "write_raises os ?fp") (auto simp: save_locations_json_def)
  from assms t m doc w have written: "files' p = Inr doc"
    by (auto simp: save_locations_json_def Let_def)
  from doc obtain v1 where g1: "py_get gl ''logistics_centers'' (JList []) = Inr v1"
    by (cases "py_get gl ''logistics_centers'' (JList [])") (simp_all add: data_to_save_def)
  from doc g1 obtain n1 where l1: "py_len v1 = Inr n1"
    by (cases "py_len v1") (simp_all add: data_to_save_def)
  from doc g1 l1 obtain v2 where g2: "py_get gl ''sales_outlets'' (JList []) = Inr v2"
    by (cases "py_get gl ''sales_outlets'' (JList [])") (simp_all add: data_to_save_def)
  from doc g1 l1 g2 obtain n2 where l2: "py_len v2 = Inr n2"
    by (cases "py_len v2") (simp_all add: data_to_save_def)
  from doc g1 l1 g2 l2 obtain v3 where g3: "py_get gl ''customers'' (JList []) = Inr v3"
    by (cases "py_get gl ''customers'' (JList [])") (simp_all add: data_to_save_def)
  from doc g1 l1 g2 l2 g3 obtain n3 where l3: "py_len v3 = Inr n3"
    by (cases "py_len v3") (simp_all add: data_to_save_def)
  from doc g1 l1 g2 l2 g3 l3 have d:
    "doc = JDict [(''metadata'',
                   JDict [(''timestamp'', JStr (isoformat_now os)),
                          (''num_logistics_centers'', JInt (int n1)),
                          (''num_sales_outlets'', JInt (int n2)),
                          (''num_customers'', JInt (int n3))]),
                  (''locations'', gl)]"
    by (simp add: data_to_save_def)
  from g1 l1 g2 l2 g3 l3 have counts: "get_location_counts gl =
             Inr (JDict [(''num_logistics_centers'', JInt (int n1)),
                         (''num_sales_outlets'', JInt (int n2)),
                         (''num_customers'', JInt (int n3))])"
    by (simp add: get_location_counts_def)
  from g1 obtain dd where dd: "gl = JDict dd" by (cases gl) simp_all
  from g1 l1 dd have c1: "map_of dd ''logistics_centers'' = None \<longrightarrow> n1 = 0"
    "\<forall>xs. map_of dd ''logistics_centers'' = Some (JList xs) \<longrightarrow> n1 = length xs"
    by (auto split: option.splits)
  from g2 l2 dd have c2: "map_of dd ''sales_outlets'' = None \<longrightarrow> n2 = 0"
    "\<forall>xs. map_of dd ''sales_outlets'' = Some (JList xs) \<longrightarrow> n2 = length xs"
    by (auto split: option.splits)
  from g3 l3 dd have c3: "map_of dd ''customers'' = None \<longrightarrow> n3 = 0"
    "\<forall>xs. map_of dd ''customers'' = Some (JList xs) \<longrightarrow> n3 = length xs"
    by (auto split: option.splits)
  show ?thesis
    by (rule exI [of _ dd], rule exI [of _ n1], rule exI [of _ n2], rule exI [of _ n3])
       (use counts written d dd c1 c2 c3 in simp)
qed

theorem saver_counts_refine_counter_witness:
  "save_locations_json quiet_os (single_file ''a.json'' JNull) sample_locations ''out'' =
     ((single_file ''a.json'' JNull)
        (''out/locations_20240101_120000.json'' :=
           Inr (JDict [(''metadata'',
                        JDict [(''timestamp'', JStr ''2024-01-01T12:00:00.123456''),
                               (''num_logistics_centers'', JInt 2),
                               (''num_sales_outlets'', JInt 0),
                               (''num_customers'', JInt 1)]),
                       (''locations'', sample_locations)])),
      [(INFO, SavedTo ''out/locations_20240101_120000.json'')],
      Returned (Some ''out/locations_20240101_120000.json''))
   \<and> get_location_counts sample_locations =
        Inr (JDict [(''num_logistics_centers'', JInt 2), (''num_sales_outlets'', JInt 0),
                    (''num_customers'', JInt 1)])"
proof -
  let ?p = "''out/locations_20240101_120000.json''"
  let ?doc = "JDict [(''metadata'',
                        JDict [(''timestamp'', JStr ''2024-01-01T12:00:00.123456''),
                               (''num_logistics_centers'', JInt 2),
                               (''num_sales_outlets'', JInt 0),
                               (''num_customers'', JInt 1)]),
                       (''locations'', sample_locations)]"
  have saved: "save_locations_json quiet_os (single_file ''a.json'' JNull) sample_locations ''out'' =
      ((single_file ''a.json'' JNull)(?p := Inr ?doc), [(INFO, SavedTo ?p)], Returned (Some ?p))"
    by (simp add: save_locations_json_def data_to_save_def quiet_os_def sample_locations_def
          os_path_join_def Let_def)
  from saver_counts_refine_counter [OF saved] obtain n1 n2 n3 where
    counts: "get_location_counts sample_locations =
               Inr (JDict [(''num_logistics_centers'', JInt (int n1)),
                           (''num_sales_outlets'', JInt (int n2)),
                           (''num_customers'', JInt (int n3))])"
    and doc: "((single_file ''a.json'' JNull)(?p := Inr ?doc)) ?p =
               Inr (JDict [(''metadata'',
                            JDict [(''timestamp'', JStr (isoformat_now quiet_os)),
                                   (''num_logistics_centers'', JInt (int n1)),
                                   (''num_sales_outlets'', JInt (int n2)),
                                   (''num_customers'', JInt (int n3))]),
                           (''locations'', sample_locations)])"
    by blast
  from doc have "int n1 = 2" "int n2 = 0" "int n3 = 1"
    by simp_all
  with counts saved show ?thesis
    by simp
qed

text \<open>
  C10. The loader reads only the \<open>locations\<close> value of the parsed document: two files
  whose documents agree on it give the same result or the same error, whatever their
  metadata; metadata counts that disagree with the lists are not looked at.
\<close>

theorem load_reads_locations_only:
  assumes "files1 p1 = Inr (JDict d1)" and "files2 p2 = Inr (JDict d2)"
    and "map_of d1 ''locations'' = map_of d2 ''locations''"
  shows "snd (load_locations_from_json sf files1 p1) = snd (load_locations_from_json sf files2 p2)"
proof -
  have same: "validate_document sf lg (JDict d1) = validate_document sf lg (JDict d2)" for lg
    using assms(3) by (simp add: validate_document_def dict_contains_def dict_getitem_def)
  have "snd (load_locations_from_json sf files1 p1) = snd (validate_document sf [] (JDict d1))"
    using assms(1) validate_document_log [of sf "[(INFO, LoadingFile p1)]" "JDict d1"]
    by (simp add: load_locations_from_json_def)
  moreover have "snd (load_locations_from_json sf files2 p2) = snd (validate_document sf [] (JDict d2))"
    using assms(2) validate_document_log [of sf "[(INFO, LoadingFile p2)]" "JDict d2"]
    by (simp add: load_locations_from_json_def)
  ultimately show ?thesis
    using same [of "[]"] by simp
qed

theorem load_reads_locations_only_witness:
  "single_file ''a.json'' doc_wrong_counts ''a.json'' =
     Inr (JDict [(''metadata'',
                  JDict [(''timestamp'', JStr ''never''), (''num_logistics_centers'', JInt 7),
                         (''num_sales_outlets'', JInt 7), (''num_customers'', JInt 7)]),
                 (''locations'', sample_locations)])
   \<and> single_file ''b.json'' doc_no_metadata ''b.json'' = Inr (JDict [(''locations'', sample_locations)])
   \<and> snd (load_locations_from_json no_literals (single_file ''a.json'' doc_wrong_counts) ''a.json'') =
      snd (load_locations_from_json no_literals (single_file ''b.json'' doc_no_metadata) ''b.json'')"
proof -
  have a: "single_file ''a.json'' doc_wrong_counts ''a.json'' =
     Inr (JDict [(''metadata'',
                  JDict [(''timestamp'', JStr ''never''), (''num_logistics_centers'', JInt 7),
                         (''num_sales_outlets'', JInt 7), (''num_customers'', JInt 7)]),
                 (''locations'', sample_locations)])"
    by (simp add: single_file_def doc_wrong_counts_def)
  have b: "single_file ''b.json'' doc_no_metadata ''b.json'' = Inr (JDict [(''locations'', sample_locations)])"
    by (simp add: single_file_def doc_no_metadata_def)
  have same: "map_of [(''metadata'',
                  JDict [(''timestamp'', JStr ''never''), (''num_logistics_centers'', JInt 7),
                         (''num_sales_outlets'', JInt 7), (''num_customers'', JInt 7)]),
                 (''locations'', sample_locations)] ''locations'' =
              map_of [(''locations'', sample_locations)] ''locations''"
    by simp
  show ?thesis
    by (rule conjI [OF a conjI [OF b
          load_reads_locations_only [of "single_file ''a.json'' doc_wrong_counts" "''a.json''" _
            "single_file ''b.json'' doc_no_metadata" "''b.json''" _ no_literals, OF a b same]]])
qed

end
